theory Spec2Isabelle
  imports Main "HOL-Library.Word"
begin

section \<open>The RAF virtual machine executable (src/impl/vm/executable.cc)\<close>

text \<open>
  The development embeds the instruction codec, the stream framing and the disassembler of
  \<^verbatim>\<open>executable.cc\<close>. Declarations that live in headers outside the repository sources
  (the opcode numbering, the debug-check switch, the magic number, the version string, the
  instruction printer, the stream primitives and the record codecs of
  \<^verbatim>\<open>serialize_util.h\<close>) are parameters of the definitions.
\<close>

subsection \<open>Scalar types\<close>

text \<open>\<^verbatim>\<open>RegName\<close> and \<^verbatim>\<open>Index\<close> are \<^verbatim>\<open>int64_t\<close>: 64-bit words, read with \<open>sint\<close>
  where the source compares them as signed numbers.\<close>

type_synonym Index = "64 word"
type_synonym RegName = "64 word"

text \<open>\<^verbatim>\<open>DLDataType {uint8_t code; uint8_t bits; uint16_t lanes;}\<close>\<close>

record DLDataType =
  code :: "8 word"
  bits :: "8 word"
  lanes :: "16 word"

subsection \<open>Opcodes and instructions\<close>

datatype Opcode =
    Opcode_Move
  | Opcode_Ret
  | Opcode_Fatal
  | Opcode_InvokePacked
  | Opcode_AllocTensor
  | Opcode_AllocTensorReg
  | Opcode_AllocStorage
  | Opcode_Free
  | Opcode_AllocTuple
  | Opcode_AllocClosure
  | Opcode_SetShape
  | Opcode_If
  | Opcode_InvokeFunc
  | Opcode_InvokeClosure
  | Opcode_LoadConst
  | Opcode_LoadConsti
  | Opcode_GetField
  | Opcode_Goto
  | Opcode_InvokeJit
  | Opcode_InferType
  | Opcode_CudaSetStream
  | Opcode_CudaAddEvent
  | Opcode_CudaWaitEvent
  | Opcode_CudaStreamBarrier

definition all_Opcodes :: "Opcode list" where
  "all_Opcodes =
     [Opcode_Move, Opcode_Ret, Opcode_Fatal, Opcode_InvokePacked, Opcode_AllocTensor,
      Opcode_AllocTensorReg, Opcode_AllocStorage, Opcode_Free, Opcode_AllocTuple,
      Opcode_AllocClosure, Opcode_SetShape, Opcode_If, Opcode_InvokeFunc,
      Opcode_InvokeClosure, Opcode_LoadConst, Opcode_LoadConsti, Opcode_GetField,
      Opcode_Goto, Opcode_InvokeJit, Opcode_InferType, Opcode_CudaSetStream,
      Opcode_CudaAddEvent, Opcode_CudaWaitEvent, Opcode_CudaStreamBarrier]"

text \<open>
  Modelled from the spec: the \<^verbatim>\<open>Instruction\<close> struct of \<^verbatim>\<open>raf/vm/bytecode.h\<close> is not
  among the sources. Each variant carries the payload of the table in section 3 of the
  specification, in the table's order; a variable-length tail is a list and its count
  field is kept beside it, as the struct keeps a pointer and a count. The fields are the
  ones \<^verbatim>\<open>SerializeInstruction\<close> reads.
\<close>

datatype Instruction =
    Instruction_Move RegName RegName
      \<comment> \<open>from, dst\<close>
  | Instruction_Ret RegName
      \<comment> \<open>result\<close>
  | Instruction_Fatal
  | Instruction_InvokePacked Index Index Index "RegName list"
      \<comment> \<open>packed_index, arity, output_size, args\<close>
  | Instruction_AllocTensor RegName Index DLDataType bool Index RegName "Index list"
      \<comment> \<open>storage, offset, dtype, own, ndim, dst, shape\<close>
  | Instruction_AllocTensorReg RegName Index RegName DLDataType RegName bool
      \<comment> \<open>storage, offset, shape_register, dtype, dst, own\<close>
  | Instruction_AllocStorage Index Index DLDataType Index Index RegName
      \<comment> \<open>allocation_size, alignment, dtype_hint, device_type, device_id, dst\<close>
  | Instruction_Free RegName
      \<comment> \<open>memory\<close>
  | Instruction_AllocTuple Index RegName "RegName list"
      \<comment> \<open>num_fields, dst, fields\<close>
  | Instruction_AllocClosure Index Index RegName "RegName list"
      \<comment> \<open>func_index, num_free_vars, dst, free_vars\<close>
  | Instruction_SetShape RegName RegName RegName
      \<comment> \<open>data, shape, dst\<close>
  | Instruction_If RegName RegName Index Index
      \<comment> \<open>test, target, true_offset, false_offset\<close>
  | Instruction_InvokeFunc Index Index RegName "RegName list"
      \<comment> \<open>func_index, num_args, dst, args\<close>
  | Instruction_InvokeClosure RegName Index RegName "RegName list"
      \<comment> \<open>closure, num_args, dst, args\<close>
  | Instruction_LoadConst Index RegName
      \<comment> \<open>const_index, dst\<close>
  | Instruction_LoadConsti Index RegName
      \<comment> \<open>val, dst\<close>
  | Instruction_GetField RegName Index RegName
      \<comment> \<open>object, field_index, dst\<close>
  | Instruction_Goto Index
      \<comment> \<open>pc_offset\<close>
  | Instruction_InvokeJit RegName Index Index "RegName list"
      \<comment> \<open>op_reg, arity, output_size, args\<close>
  | Instruction_InferType RegName Index RegName "RegName list"
      \<comment> \<open>op_reg, num_args, dst, args\<close>
  | Instruction_CudaSetStream Index Index
      \<comment> \<open>device_id, stream_id\<close>
  | Instruction_CudaAddEvent Index Index
      \<comment> \<open>event_id, stream_id\<close>
  | Instruction_CudaWaitEvent Index Index
      \<comment> \<open>event_id, stream_id\<close>
  | Instruction_CudaStreamBarrier

text \<open>The \<^verbatim>\<open>op\<close> member.\<close>

fun op :: "Instruction \<Rightarrow> Opcode" where
  "op (Instruction_Move _ _) = Opcode_Move"
| "op (Instruction_Ret _) = Opcode_Ret"
| "op Instruction_Fatal = Opcode_Fatal"
| "op (Instruction_InvokePacked _ _ _ _) = Opcode_InvokePacked"
| "op (Instruction_AllocTensor _ _ _ _ _ _ _) = Opcode_AllocTensor"
| "op (Instruction_AllocTensorReg _ _ _ _ _ _) = Opcode_AllocTensorReg"
| "op (Instruction_AllocStorage _ _ _ _ _ _) = Opcode_AllocStorage"
| "op (Instruction_Free _) = Opcode_Free"
| "op (Instruction_AllocTuple _ _ _) = Opcode_AllocTuple"
| "op (Instruction_AllocClosure _ _ _ _) = Opcode_AllocClosure"
| "op (Instruction_SetShape _ _ _) = Opcode_SetShape"
| "op (Instruction_If _ _ _ _) = Opcode_If"
| "op (Instruction_InvokeFunc _ _ _ _) = Opcode_InvokeFunc"
| "op (Instruction_InvokeClosure _ _ _ _) = Opcode_InvokeClosure"
| "op (Instruction_LoadConst _ _) = Opcode_LoadConst"
| "op (Instruction_LoadConsti _ _) = Opcode_LoadConsti"
| "op (Instruction_GetField _ _ _) = Opcode_GetField"
| "op (Instruction_Goto _) = Opcode_Goto"
| "op (Instruction_InvokeJit _ _ _ _) = Opcode_InvokeJit"
| "op (Instruction_InferType _ _ _ _) = Opcode_InferType"
| "op (Instruction_CudaSetStream _ _) = Opcode_CudaSetStream"
| "op (Instruction_CudaAddEvent _ _) = Opcode_CudaAddEvent"
| "op (Instruction_CudaWaitEvent _ _) = Opcode_CudaWaitEvent"
| "op Instruction_CudaStreamBarrier = Opcode_CudaStreamBarrier"

text \<open>
  Modelled from the spec: the named constructors of \<^verbatim>\<open>bytecode.cc\<close> that take the tail as
  a vector and no count (\<^verbatim>\<open>Instruction::AllocTensor\<close>, \<^verbatim>\<open>AllocTuple\<close>, \<^verbatim>\<open>AllocClosure\<close>,
  \<^verbatim>\<open>InvokeFunc\<close>, \<^verbatim>\<open>InvokeClosure\<close>, \<^verbatim>\<open>InferType\<close>) are not among the sources: the count
  field is the size of the vector, converted to \<^verbatim>\<open>Index\<close>.
\<close>

definition vector_size :: "'a list \<Rightarrow> Index" where
  "vector_size xs = of_nat (length xs)"

definition Instruction_AllocTensor_make ::
  "RegName \<Rightarrow> Index \<Rightarrow> Index list \<Rightarrow> DLDataType \<Rightarrow> RegName \<Rightarrow> bool \<Rightarrow> Instruction" where
  "Instruction_AllocTensor_make storage offset shape dtype dst own =
     Instruction_AllocTensor storage offset dtype own (vector_size shape) dst shape"

definition Instruction_AllocTuple_make :: "RegName list \<Rightarrow> RegName \<Rightarrow> Instruction" where
  "Instruction_AllocTuple_make fs dst = Instruction_AllocTuple (vector_size fs) dst fs"

definition Instruction_AllocClosure_make :: "Index \<Rightarrow> RegName list \<Rightarrow> RegName \<Rightarrow> Instruction" where
  "Instruction_AllocClosure_make func_index free_vars dst =
     Instruction_AllocClosure func_index (vector_size free_vars) dst free_vars"

definition Instruction_InvokeFunc_make :: "Index \<Rightarrow> RegName list \<Rightarrow> RegName \<Rightarrow> Instruction" where
  "Instruction_InvokeFunc_make func_index args dst =
     Instruction_InvokeFunc func_index (vector_size args) dst args"

definition Instruction_InvokeClosure_make :: "RegName \<Rightarrow> RegName list \<Rightarrow> RegName \<Rightarrow> Instruction" where
  "Instruction_InvokeClosure_make closure args dst =
     Instruction_InvokeClosure closure (vector_size args) dst args"

definition Instruction_InferType_make :: "RegName \<Rightarrow> RegName list \<Rightarrow> RegName \<Rightarrow> Instruction" where
  "Instruction_InferType_make op_reg args dst =
     Instruction_InferType op_reg (vector_size args) dst args"

subsection \<open>Declarations taken as parameters\<close>

text \<open>
  \<^item> \<open>Opcode_index\<close>: the numbering of \<^verbatim>\<open>enum class Opcode\<close>, used by
    \<^verbatim>\<open>static_cast<Index>(instr.op)\<close> and \<^verbatim>\<open>static_cast<Opcode>(instr.opcode)\<close>;
  \<^item> \<open>DCHECK_enabled\<close>: whether the build compiles \<^verbatim>\<open>DCHECK\<close>, \<^verbatim>\<open>DCHECK_EQ\<close> and
    \<^verbatim>\<open>DCHECK_GE\<close> to checks (debug) or to nothing (release);
  \<^item> \<open>kMetaVMBytecodeMagic\<close> and \<open>TVM_VERSION\<close>: the header constants;
  \<^item> \<open>Instruction_text\<close>: \<^verbatim>\<open>operator<<\<close> on an instruction;
  \<^item> \<open>VMFunction_init\<close>: a default-constructed \<^verbatim>\<open>VMFunction\<close>.
\<close>

text \<open>
  Modelled from the spec: \<^verbatim>\<open>VMFunction\<close> is declared in \<^verbatim>\<open>raf/vm/vm.h\<close>, which is not among
  the sources; its fields are those of section 3 of the specification, which are the
  ones the source reads.
\<close>

record VMFunction =
  name :: string
  params :: "string list"
  instructions :: "Instruction list"
  register_file_size :: Index

record vm_decls =
  Opcode_index :: "Opcode \<Rightarrow> Index"
  DCHECK_enabled :: bool
  kMetaVMBytecodeMagic :: "64 word"
  TVM_VERSION :: string
  Instruction_text :: "Instruction \<Rightarrow> string"
  VMFunction_init :: VMFunction

text \<open>\<^verbatim>\<open>static_cast<Opcode>(instr.opcode)\<close> followed by the \<^verbatim>\<open>switch\<close>: the enumerator with
  that number, or none (the \<^verbatim>\<open>default\<close> label).\<close>

definition static_cast_Opcode :: "vm_decls \<Rightarrow> Index \<Rightarrow> Opcode option" where
  "static_cast_Opcode D i = find (\<lambda>c. Opcode_index D c = i) all_Opcodes"

subsection \<open>Results\<close>

datatype error =
    StreamCheck string
      \<comment> \<open>\<^verbatim>\<open>STREAM_CHECK(val, section)\<close> failed: "Invalid VM file format in the <section> section."\<close>
  | CheckFailed
      \<comment> \<open>a \<^verbatim>\<open>CHECK\<close>, \<^verbatim>\<open>CHECK_LE\<close> failed\<close>
  | DCheckFailed
      \<comment> \<open>a \<^verbatim>\<open>DCHECK\<close> failed in a build that compiles them\<close>
  | InvalidOpcode Index
      \<comment> \<open>\<^verbatim>\<open>LOG(FATAL) << "Invalid opcode"\<close>\<close>
  | OutOfBounds
      \<comment> \<open>\<^verbatim>\<open>operator[]\<close> past the end of a vector: the read the source performs is undefined\<close>
  | ValueError
      \<comment> \<open>the external value codec failed\<close>

subsection \<open>Instruction codec\<close>

text \<open>\<^verbatim>\<open>VMInstructionSerializer {Index opcode; std::vector<Index> fields;}\<close> (the record
  package reserves the name \<open>fields\<close>, hence the prefix).\<close>

record VMInstructionSerializer =
  serialized_opcode :: Index
  serialized_fields :: "Index list"

text \<open>Integral conversions of the source: \<^verbatim>\<open>uint8_t\<close>/\<^verbatim>\<open>uint16_t\<close> to \<^verbatim>\<open>int64_t\<close>
  zero-extends, \<^verbatim>\<open>bool\<close> becomes 0 or 1; back, the value is truncated, and a \<^verbatim>\<open>bool\<close> is
  true for a nonzero value.\<close>

definition dtype_fields :: "DLDataType \<Rightarrow> Index list" where
  "dtype_fields t = [ucast (code t), ucast (bits t), ucast (lanes t)]"

definition dtype_of_fields :: "Index \<Rightarrow> Index \<Rightarrow> Index \<Rightarrow> DLDataType" where
  "dtype_of_fields c b l = \<lparr>code = ucast c, bits = ucast b, lanes = ucast l\<rparr>"

definition bool_of_Index :: "Index \<Rightarrow> bool" where
  "bool_of_Index x = (x \<noteq> 0)"

text \<open>\<^verbatim>\<open>fields.insert(fields.end(), args, args + arity)\<close>: the first \<open>arity\<close> elements of the
  array. The array of a constructed instruction has exactly \<open>arity\<close> elements.\<close>

definition array_range :: "Index list \<Rightarrow> Index \<Rightarrow> Index list" where
  "array_range xs cnt = take (nat (sint cnt)) xs"

fun instruction_fields :: "Instruction \<Rightarrow> Index list" where
  "instruction_fields (Instruction_Move from dst) = [from, dst]"
| "instruction_fields (Instruction_Ret result) = [result]"
| "instruction_fields Instruction_Fatal = []"
| "instruction_fields (Instruction_InvokePacked packed_index arity output_size args) =
     [packed_index, arity, output_size] @ array_range args arity"
| "instruction_fields (Instruction_AllocTensor storage offset dtype own ndim dst shape) =
     [storage, offset] @ dtype_fields dtype @ [of_bool own, ndim, dst] @ array_range shape ndim"
| "instruction_fields (Instruction_AllocTensorReg storage offset shape_register dtype dst own) =
     [storage, offset, shape_register] @ dtype_fields dtype @ [dst, of_bool own]"
| "instruction_fields (Instruction_AllocStorage allocation_size alignment dtype_hint device_type device_id dst) =
     [allocation_size, alignment] @ dtype_fields dtype_hint @ [device_type, device_id, dst]"
| "instruction_fields (Instruction_Free memory) = [memory]"
| "instruction_fields (Instruction_AllocTuple num_fields dst fs) =
     [num_fields, dst] @ array_range fs num_fields"
| "instruction_fields (Instruction_AllocClosure func_index num_free_vars dst free_vars) =
     [func_index, num_free_vars, dst] @ array_range free_vars num_free_vars"
| "instruction_fields (Instruction_SetShape data shape dst) = [data, shape, dst]"
| "instruction_fields (Instruction_If test target true_offset false_offset) =
     [test, target, true_offset, false_offset]"
| "instruction_fields (Instruction_InvokeFunc func_index num_args dst args) =
     [func_index, num_args, dst] @ array_range args num_args"
| "instruction_fields (Instruction_InvokeClosure closure num_args dst args) =
     [closure, num_args, dst] @ array_range args num_args"
| "instruction_fields (Instruction_LoadConst const_index dst) = [const_index, dst]"
| "instruction_fields (Instruction_LoadConsti val dst) = [val, dst]"
| "instruction_fields (Instruction_GetField object field_index dst) = [object, field_index, dst]"
| "instruction_fields (Instruction_Goto pc_offset) = [pc_offset]"
| "instruction_fields (Instruction_InvokeJit op_reg arity output_size args) =
     [op_reg, arity, output_size] @ array_range args arity"
| "instruction_fields (Instruction_InferType op_reg num_args dst args) =
     [op_reg, num_args, dst] @ array_range args num_args"
| "instruction_fields (Instruction_CudaSetStream device_id stream_id) = [device_id, stream_id]"
| "instruction_fields (Instruction_CudaAddEvent event_id stream_id) = [event_id, stream_id]"
| "instruction_fields (Instruction_CudaWaitEvent event_id stream_id) = [event_id, stream_id]"
| "instruction_fields Instruction_CudaStreamBarrier = []"

text \<open>\<^verbatim>\<open>SerializeInstruction\<close>: the \<^verbatim>\<open>switch\<close> fills \<open>fields\<close>
  (\<open>instruction_fields\<close>, one equation per \<^verbatim>\<open>case\<close>); the result pairs them with the
  opcode's number. The \<^verbatim>\<open>default\<close> label is unreachable for a value of the enumeration.\<close>

definition SerializeInstruction :: "vm_decls \<Rightarrow> Instruction \<Rightarrow> VMInstructionSerializer" where
  "SerializeInstruction D instr =
     \<lparr>serialized_opcode = Opcode_index D (op instr), serialized_fields = instruction_fields instr\<rparr>"

text \<open>\<^verbatim>\<open>ExtractFields(instr_fields, start, cnt)\<close>: the \<^verbatim>\<open>CHECK_LE\<close> compares
  \<^verbatim>\<open>static_cast<size_t>(start + cnt)\<close> with the size; the loop runs \<open>i\<close> over the signed
  range from \<open>start\<close> up to \<open>start + cnt\<close>. The callers pass 2, 3 or 8 for \<open>start\<close>, and
  every index the loop reads is below the size once the check has passed.\<close>

definition ExtractFields :: "Index list \<Rightarrow> Index \<Rightarrow> Index \<Rightarrow> error + Index list" where
  "ExtractFields instr_fields start cnt =
     (if unat (start + cnt) \<le> length instr_fields
      then Inr (map (\<lambda>i. instr_fields ! i) [nat (sint start) ..< nat (sint (start + cnt))])
      else Inl CheckFailed)"

text \<open>A \<^verbatim>\<open>case\<close> of \<^verbatim>\<open>DeserializeInstruction\<close> with a fixed number of reads: \<open>ok\<close> is the
  conjunction of its \<^verbatim>\<open>DCHECK\<close>s, \<open>reads\<close> the number of leading fields the case reads
  with \<^verbatim>\<open>operator[]\<close>.\<close>

definition checked_case ::
  "vm_decls \<Rightarrow> bool \<Rightarrow> nat \<Rightarrow> Index list \<Rightarrow> (error + Instruction) \<Rightarrow> error + Instruction" where
  "checked_case D ok reads fs result =
     (if DCHECK_enabled D \<and> \<not> ok then Inl DCheckFailed
      else if length fs < reads then Inl OutOfBounds
      else result)"

definition with_tail ::
  "Index list \<Rightarrow> Index \<Rightarrow> Index \<Rightarrow> (Index list \<Rightarrow> Instruction) \<Rightarrow> error + Instruction" where
  "with_tail fs start cnt build =
     (case ExtractFields fs start cnt of Inl e \<Rightarrow> Inl e | Inr tail \<Rightarrow> Inr (build tail))"

definition DeserializeInstruction :: "vm_decls \<Rightarrow> VMInstructionSerializer \<Rightarrow> error + Instruction" where
  "DeserializeInstruction D instr =
    (let fs = serialized_fields instr; n = length fs in
     case static_cast_Opcode D (serialized_opcode instr) of
       None \<Rightarrow> Inl (InvalidOpcode (serialized_opcode instr))
     | Some Opcode_Move \<Rightarrow>
         checked_case D (n = 2) 2 fs (Inr (Instruction_Move (fs ! 0) (fs ! 1)))
     | Some Opcode_Ret \<Rightarrow>
         checked_case D (n = 1) 1 fs (Inr (Instruction_Ret (fs ! 0)))
     | Some Opcode_Fatal \<Rightarrow>
         checked_case D (fs = []) 0 fs (Inr Instruction_Fatal)
     | Some Opcode_InvokePacked \<Rightarrow>
         checked_case D (3 \<le> n \<and> n = unat (3 + fs ! 1)) 3 fs
           (with_tail fs 3 (fs ! 1) (Instruction_InvokePacked (fs ! 0) (fs ! 1) (fs ! 2)))
     | Some Opcode_AllocTensor \<Rightarrow>
         checked_case D (8 \<le> n \<and> n = unat (8 + fs ! 6)) 8 fs
           (with_tail fs 8 (fs ! 6)
             (\<lambda>shape. Instruction_AllocTensor_make (fs ! 0) (fs ! 1) shape
                (dtype_of_fields (fs ! 2) (fs ! 3) (fs ! 4)) (fs ! 7) (bool_of_Index (fs ! 5))))
     | Some Opcode_AllocTensorReg \<Rightarrow>
         checked_case D (n = 7) 8 fs
           (Inr (Instruction_AllocTensorReg (fs ! 0) (fs ! 1) (fs ! 2)
                  (dtype_of_fields (fs ! 3) (fs ! 4) (fs ! 5)) (fs ! 6) (bool_of_Index (fs ! 7))))
     | Some Opcode_AllocTuple \<Rightarrow>
         checked_case D (2 \<le> n \<and> n = unat (2 + fs ! 0)) 2 fs
           (with_tail fs 2 (fs ! 0) (\<lambda>tl. Instruction_AllocTuple_make tl (fs ! 1)))
     | Some Opcode_AllocClosure \<Rightarrow>
         checked_case D (3 \<le> n \<and> n = unat (3 + fs ! 1)) 3 fs
           (with_tail fs 3 (fs ! 1) (\<lambda>free_vars. Instruction_AllocClosure_make (fs ! 0) free_vars (fs ! 2)))
     | Some Opcode_AllocStorage \<Rightarrow>
         checked_case D (6 \<le> n) 8 fs
           (Inr (Instruction_AllocStorage (fs ! 0) (fs ! 1)
                  (dtype_of_fields (fs ! 2) (fs ! 3) (fs ! 4)) (fs ! 5) (fs ! 6) (fs ! 7)))
     | Some Opcode_Free \<Rightarrow>
         checked_case D (n = 1) 1 fs (Inr (Instruction_Free (fs ! 0)))
     | Some Opcode_SetShape \<Rightarrow>
         checked_case D (3 \<le> n) 3 fs (Inr (Instruction_SetShape (fs ! 0) (fs ! 1) (fs ! 2)))
     | Some Opcode_If \<Rightarrow>
         checked_case D (n = 4) 4 fs (Inr (Instruction_If (fs ! 0) (fs ! 1) (fs ! 2) (fs ! 3)))
     | Some Opcode_InvokeFunc \<Rightarrow>
         checked_case D (3 \<le> n \<and> n = unat (3 + fs ! 1)) 3 fs
           (with_tail fs 3 (fs ! 1) (\<lambda>args. Instruction_InvokeFunc_make (fs ! 0) args (fs ! 2)))
     | Some Opcode_InvokeClosure \<Rightarrow>
         checked_case D (3 \<le> n \<and> n = unat (3 + fs ! 1)) 3 fs
           (with_tail fs 3 (fs ! 1) (\<lambda>args. Instruction_InvokeClosure_make (fs ! 0) args (fs ! 2)))
     | Some Opcode_LoadConst \<Rightarrow>
         checked_case D (n = 2) 2 fs (Inr (Instruction_LoadConst (fs ! 0) (fs ! 1)))
     | Some Opcode_LoadConsti \<Rightarrow>
         checked_case D (n = 2) 2 fs (Inr (Instruction_LoadConsti (fs ! 0) (fs ! 1)))
     | Some Opcode_GetField \<Rightarrow>
         checked_case D (n = 3) 3 fs (Inr (Instruction_GetField (fs ! 0) (fs ! 1) (fs ! 2)))
     | Some Opcode_Goto \<Rightarrow>
         checked_case D (n = 1) 1 fs (Inr (Instruction_Goto (fs ! 0)))
     | Some Opcode_InvokeJit \<Rightarrow>
         checked_case D (3 \<le> n \<and> n = unat (3 + fs ! 1)) 3 fs
           (with_tail fs 3 (fs ! 1) (Instruction_InvokeJit (fs ! 0) (fs ! 1) (fs ! 2)))
     | Some Opcode_InferType \<Rightarrow>
         checked_case D (3 \<le> n \<and> n = unat (3 + fs ! 1)) 3 fs
           (with_tail fs 3 (fs ! 1) (\<lambda>args. Instruction_InferType_make (fs ! 0) args (fs ! 2)))
     | Some Opcode_CudaSetStream \<Rightarrow>
         checked_case D (n = 2) 2 fs (Inr (Instruction_CudaSetStream (fs ! 0) (fs ! 1)))
     | Some Opcode_CudaAddEvent \<Rightarrow>
         checked_case D (n = 2) 2 fs (Inr (Instruction_CudaAddEvent (fs ! 0) (fs ! 1)))
     | Some Opcode_CudaWaitEvent \<Rightarrow>
         checked_case D (n = 2) 2 fs (Inr (Instruction_CudaWaitEvent (fs ! 0) (fs ! 1)))
     | Some Opcode_CudaStreamBarrier \<Rightarrow>
         checked_case D (fs = []) 0 fs (Inr Instruction_Fatal))"

text \<open>A legal operand assignment: every count field is the size of its tail, and the tail
  fits a \<^verbatim>\<open>std::vector<int64_t>\<close> (fewer than \<open>2 ^ 60\<close> elements).\<close>

definition legal_tail :: "Index \<Rightarrow> Index list \<Rightarrow> bool" where
  "legal_tail cnt xs \<longleftrightarrow> cnt = vector_size xs \<and> length xs < 2 ^ 60"

fun legal_operands :: "Instruction \<Rightarrow> bool" where
  "legal_operands (Instruction_InvokePacked _ arity _ args) = legal_tail arity args"
| "legal_operands (Instruction_AllocTensor _ _ _ _ ndim _ shape) = legal_tail ndim shape"
| "legal_operands (Instruction_AllocTuple num_fields _ fs) = legal_tail num_fields fs"
| "legal_operands (Instruction_AllocClosure _ num_free_vars _ free_vars) =
     legal_tail num_free_vars free_vars"
| "legal_operands (Instruction_InvokeFunc _ num_args _ args) = legal_tail num_args args"
| "legal_operands (Instruction_InvokeClosure _ num_args _ args) = legal_tail num_args args"
| "legal_operands (Instruction_InvokeJit _ arity _ args) = legal_tail arity args"
| "legal_operands (Instruction_InferType _ num_args _ args) = legal_tail num_args args"
| "legal_operands _ = True"

subsection \<open>The executable\<close>

text \<open>
  Modelled from the spec: the members of \<^verbatim>\<open>Executable\<close> are declared in \<^verbatim>\<open>raf/vm/vm.h\<close>,
  which is not among the sources; the fields are those of section 3 of the specification,
  which are the ones the source reads (\<^verbatim>\<open>code_\<close> is the field \<open>code_buffer\<close>: a name cannot
  end in an underscore). \<^verbatim>\<open>global_map\<close> and \<^verbatim>\<open>primitive_map\<close> are
  \<^verbatim>\<open>std::unordered_map<std::string, Index>\<close>: association lists with distinct keys,
  listed in the order in which the container iterates. The operator library handle and
  the constant values are opaque.
\<close>

record ('lib, 'v) Executable =
  lib :: 'lib
  code_buffer :: string
  constants :: "'v list"
  global_map :: "(string \<times> Index) list"
  primitive_map :: "(string \<times> Index) list"
  "functions" :: "VMFunction list"

text \<open>\<^verbatim>\<open>operator[]\<close> on a vector with a \<^verbatim>\<open>size_t\<close> index; past the end the read is
  undefined and the model returns \<open>OutOfBounds\<close>.\<close>

definition vector_at :: "'a list \<Rightarrow> nat \<Rightarrow> error + 'a" where
  "vector_at xs i = (if i < length xs then Inr (xs ! i) else Inl OutOfBounds)"

text \<open>\<^verbatim>\<open>Executable::GetFunctionParameterName(std::string func_name, uint32_t index)\<close>\<close>

definition GetFunctionParameterName ::
  "('lib, 'v) Executable \<Rightarrow> string \<Rightarrow> 32 word \<Rightarrow> error + string" where
  "GetFunctionParameterName e func_name index =
     (case map_of (global_map e) func_name of
        None \<Rightarrow> Inr []
      | Some it_second \<Rightarrow>
          (case vector_at (functions e) (unat it_second) of
             Inl err \<Rightarrow> Inl err
           | Inr func \<Rightarrow>
               if unat index > length (params func) then Inr []
               else vector_at (params func) (unat index)))"

subsection \<open>Disassembler\<close>

text \<open>Decimal output of \<^verbatim>\<open>operator<<\<close> for \<^verbatim>\<open>size_t\<close> and for the signed \<^verbatim>\<open>Index\<close>.\<close>

definition digit_char :: "nat \<Rightarrow> char" where
  "digit_char d = ''0123456789'' ! d"

fun show_nat :: "nat \<Rightarrow> string" where
  "show_nat n = (if n < 10 then [digit_char n] else show_nat (n div 10) @ [digit_char (n mod 10)])"

declare show_nat.simps [simp del]

definition show_Index :: "Index \<Rightarrow> string" where
  "show_Index x =
     (if sint x < 0 then CHR ''-'' # show_nat (nat (- sint x)) else show_nat (nat (sint x)))"

definition newline :: char where
  "newline = CHR 0x0A"

definition endl :: string where
  "endl = [newline]"

text \<open>\<^verbatim>\<open>std::setw(w)\<close> before one output: right-aligned, padded with spaces.\<close>

definition setw :: "nat \<Rightarrow> string \<Rightarrow> string" where
  "setw w s = replicate (w - length s) CHR '' '' @ s"

text \<open>
  \<^verbatim>\<open>std::ostringstream\<close>: the buffer, the put position and the fail bit. An output
  overwrites from the put position and extends the buffer; \<^verbatim>\<open>seekp(off, end)\<close> moves
  the put position relative to the end and sets the fail bit when the target lies outside
  the buffer; a stream whose fail bit is set ignores both.
\<close>

record ostringstream =
  str :: string
  tellp :: nat
  failbit :: bool

definition ostringstream_init :: ostringstream where
  "ostringstream_init = \<lparr>str = [], tellp = 0, failbit = False\<rparr>"

definition put :: "string \<Rightarrow> ostringstream \<Rightarrow> ostringstream" where
  "put s os =
     (if failbit os then os
      else os\<lparr>str := take (tellp os) (str os) @ s @ drop (tellp os + length s) (str os),
              tellp := tellp os + length s\<rparr>)"

definition seekp_end :: "int \<Rightarrow> ostringstream \<Rightarrow> ostringstream" where
  "seekp_end off os =
     (if failbit os then os
      else let target = int (length (str os)) + off
           in if 0 \<le> target \<and> target \<le> int (length (str os))
              then os\<lparr>tellp := nat target\<rparr>
              else os\<lparr>failbit := True\<rparr>)"

text \<open>The header line of a function: lines 99 to 104 of \<^verbatim>\<open>GetBytecode\<close>.\<close>

definition put_function_header :: "nat \<Rightarrow> VMFunction \<Rightarrow> ostringstream \<Rightarrow> ostringstream" where
  "put_function_header i func os =
     (let os1 = put (''VM Function['' @ show_nat i @ '']: '' @ name func @ ''('') os;
          os2 = fold (\<lambda>param. put (param @ '', '')) (params func) os1;
          os3 = seekp_end (- 2) os2
      in put endl (put '')'' os3))"

text \<open>One iteration of the instruction loop.\<close>

definition put_instruction :: "vm_decls \<Rightarrow> nat \<times> Instruction \<Rightarrow> ostringstream \<Rightarrow> ostringstream" where
  "put_instruction D = (\<lambda>(idx, instr) os.
     (let serialized_instr = SerializeInstruction D instr;
          os1 = put (setw 2 (show_nat idx) @ '': '' @
                     show_Index (serialized_opcode serialized_instr) @ '' '') os;
          os2 = fold (\<lambda>it. put (show_Index it @ '' '')) (serialized_fields serialized_instr) os1;
          os3 = put (''  # '' @ Instruction_text D instr) os2
      in if last (str os3) \<noteq> newline then put endl os3 else os3))"

text \<open>The body of the loop over \<open>functions\<close>.\<close>

definition put_function :: "vm_decls \<Rightarrow> nat \<times> VMFunction \<Rightarrow> ostringstream \<Rightarrow> ostringstream" where
  "put_function D = (\<lambda>(i, func) os.
     (let os1 = put_function_header i func os;
          os2 = put (''# reg file size = '' @ show_Index (register_file_size func) @ endl) os1;
          os3 = put (''# instruction count = '' @ show_nat (length (instructions func)) @ endl) os2;
          os4 = put (''opcode, fields # inst(text):'' @ endl) os3;
          os5 = fold (put_instruction D) (enumerate 0 (instructions func)) os4
      in put endl os5))"

definition GetBytecode :: "vm_decls \<Rightarrow> ('lib, 'v) Executable \<Rightarrow> string" where
  "GetBytecode D e = str (fold (put_function D) (enumerate 0 (functions e)) ostringstream_init)"

text \<open>Reading the output back: the lines of a text, each ended by a newline (a last line
  without one counts too), and the text one function contributes.\<close>

definition lines :: "string \<Rightarrow> string list" where
  "lines s =
     foldr (\<lambda>c ls. if c = newline then [] # ls
                    else (case ls of [] \<Rightarrow> [[c]] | l # rest \<Rightarrow> (c # l) # rest)) s []"

definition function_block :: "vm_decls \<Rightarrow> nat \<Rightarrow> VMFunction \<Rightarrow> string" where
  "function_block D i func = str (put_function D (i, func) ostringstream_init)"

definition single_line :: "string \<Rightarrow> bool" where
  "single_line s \<longleftrightarrow> newline \<notin> set s"

text \<open>The text each step of \<^verbatim>\<open>GetBytecode\<close> contributes when the put position is at the end
  of the buffer (\<open>stream_at_end\<close>), as it is before and after every step.\<close>

definition stream_at_end :: "string \<Rightarrow> ostringstream" where
  "stream_at_end b = \<lparr>str = b, tellp = length b, failbit = False\<rparr>"

definition function_prefix :: "nat \<Rightarrow> string" where
  "function_prefix i = ''VM Function['' @ show_nat i @ '']: ''"

definition header_line :: "nat \<Rightarrow> VMFunction \<Rightarrow> string" where
  "header_line i func =
     (let written = function_prefix i @ name func @ ''('' @
                    concat (map (\<lambda>param. param @ '', '') (params func))
      in take (length written - 2) written @ '')'')"

definition instruction_line :: "vm_decls \<Rightarrow> nat \<times> Instruction \<Rightarrow> string" where
  "instruction_line D = (\<lambda>(idx, instr).
     (let written = setw 2 (show_nat idx) @ '': '' @ show_Index (Opcode_index D (op instr)) @ '' '' @
                    concat (map (\<lambda>it. show_Index it @ '' '') (instruction_fields instr)) @
                    ''  # '' @ Instruction_text D instr
      in if last written \<noteq> newline then written @ endl else written))"

text \<open>The same line without its newline, for a printer whose text has no newline other
  than a final one.\<close>

definition index_prefix :: "nat \<Rightarrow> string" where
  "index_prefix idx = setw 2 (show_nat idx) @ '': ''"

definition strip_newline :: "string \<Rightarrow> string" where
  "strip_newline t = (if t \<noteq> [] \<and> last t = newline then butlast t else t)"

definition instruction_line_body :: "vm_decls \<Rightarrow> nat \<times> Instruction \<Rightarrow> string" where
  "instruction_line_body D = (\<lambda>(idx, instr).
     index_prefix idx @ show_Index (Opcode_index D (op instr)) @ '' '' @
     concat (map (\<lambda>it. show_Index it @ '' '') (instruction_fields instr)) @
     ''  # '' @ strip_newline (Instruction_text D instr))"

definition printable_function :: "vm_decls \<Rightarrow> VMFunction \<Rightarrow> bool" where
  "printable_function D f \<longleftrightarrow>
     single_line (name f) \<and> (\<forall>p \<in> set (params f). single_line p) \<and>
     (\<forall>instr \<in> set (instructions f). single_line (butlast (Instruction_text D instr)))"

subsection \<open>Stream framing\<close>

text \<open>\<^verbatim>\<open>VMFunctionSerializer {name; register_file_size; num_instructions; params}\<close>, built
  from a function by \<^verbatim>\<open>SaveCodeSection\<close> and filled by \<^verbatim>\<open>Load\<close>.\<close>

record VMFunctionSerializer =
  header_name :: string
  header_register_file_size :: Index
  num_instructions :: "64 word"
  header_params :: "string list"

text \<open>
  The stream primitives of \<^verbatim>\<open>dmlc::Stream\<close>, the record codecs of \<^verbatim>\<open>serialize_util.h\<close> and
  the value codec of \<^verbatim>\<open>raf/serialization.h\<close> are not among the sources and are parameters.
  The stream is the string \<^verbatim>\<open>code_\<close>: a writer gives the bytes it appends, a reader
  consumes a prefix and returns the rest, or fails. \<open>Read_size\<close> is the raw
  \<^verbatim>\<open>strm->Read(&sz, sizeof(sz))\<close>, which the source checks for a nonzero byte count only.
\<close>

record 'v stream_ops =
  Write_uint64 :: "64 word \<Rightarrow> string"
  Write_string :: "string \<Rightarrow> string"
  Write_strings :: "string list \<Rightarrow> string"
  SerializeValue :: "'v \<Rightarrow> string"
  Func_Save :: "VMFunctionSerializer \<Rightarrow> string"
  Instr_Save :: "VMInstructionSerializer \<Rightarrow> string"
  Read_uint64 :: "string \<Rightarrow> (64 word \<times> string) option"
  Read_size :: "string \<Rightarrow> (64 word \<times> string) option"
  Read_string :: "string \<Rightarrow> (string \<times> string) option"
  Read_strings :: "string \<Rightarrow> (string list \<times> string) option"
  DeserializeValue :: "string \<Rightarrow> ('v \<times> string) option"
  Func_Load :: "string \<Rightarrow> (VMFunctionSerializer \<times> string) option"
  Instr_Load :: "string \<Rightarrow> (VMInstructionSerializer \<times> string) option"

subsubsection \<open>Save\<close>

definition SaveHeader :: "vm_decls \<Rightarrow> 'v stream_ops \<Rightarrow> string \<Rightarrow> string" where
  "SaveHeader D ops strm =
     strm @ Write_uint64 ops (kMetaVMBytecodeMagic D) @ Write_string ops (TVM_VERSION D)"

text \<open>\<^verbatim>\<open>SaveGlobalSection\<close>: the pairs of \<open>global_map\<close>, sorted by the signed index, then the
  names. \<^verbatim>\<open>std::sort\<close> leaves the order of pairs with equal indices open; the model
  sorts stably.\<close>

definition sorted_globals :: "(string \<times> Index) list \<Rightarrow> (string \<times> Index) list" where
  "sorted_globals globals = sort_key (\<lambda>p. sint (snd p)) globals"

definition global_names :: "('lib, 'v) Executable \<Rightarrow> string list" where
  "global_names e = map fst (sorted_globals (global_map e))"

definition SaveGlobalSection :: "'v stream_ops \<Rightarrow> ('lib, 'v) Executable \<Rightarrow> string \<Rightarrow> string" where
  "SaveGlobalSection ops e strm = strm @ Write_strings ops (global_names e)"

definition SaveConstantSection :: "'v stream_ops \<Rightarrow> ('lib, 'v) Executable \<Rightarrow> string \<Rightarrow> string" where
  "SaveConstantSection ops e strm =
     fold (\<lambda>v s. s @ SerializeValue ops v) (constants e)
       (strm @ Write_uint64 ops (of_nat (length (constants e))))"

text \<open>\<^verbatim>\<open>vector::resize(n)\<close>: truncates, or fills with default-constructed elements.\<close>

definition vector_resize :: "nat \<Rightarrow> 'a \<Rightarrow> 'a list \<Rightarrow> 'a list" where
  "vector_resize n x xs = take n xs @ replicate (n - length xs) x"

text \<open>\<^verbatim>\<open>SavePrimitiveOpNames\<close>: one pass over \<open>primitive_map\<close>. The index is converted to
  \<^verbatim>\<open>size_t\<close>; when it is not yet a position of the vector, the vector is resized to
  \<^verbatim>\<open>packed_index + 1\<close>, a sum that wraps to 0 for the index \<open>- 1\<close>; the name is then
  stored with \<^verbatim>\<open>operator[]\<close>, which is undefined past the end.\<close>

definition place_primitive :: "string \<times> Index \<Rightarrow> string list \<Rightarrow> error + string list" where
  "place_primitive = (\<lambda>(nm, it_second) primitive_names.
     (let packed_index = unat it_second;
          resized = (if length primitive_names \<le> packed_index
                     then vector_resize (unat (it_second + 1)) [] primitive_names
                     else primitive_names)
      in if packed_index < length resized then Inr (resized[packed_index := nm])
         else Inl OutOfBounds))"

fun place_primitives :: "(string \<times> Index) list \<Rightarrow> string list \<Rightarrow> error + string list" where
  "place_primitives [] primitive_names = Inr primitive_names"
| "place_primitives (it # rest) primitive_names =
     (case place_primitive it primitive_names of
        Inl err \<Rightarrow> Inl err
      | Inr placed \<Rightarrow> place_primitives rest placed)"

definition primitive_names :: "('lib, 'v) Executable \<Rightarrow> error + string list" where
  "primitive_names e = place_primitives (primitive_map e) []"

definition SavePrimitiveOpNames ::
  "'v stream_ops \<Rightarrow> ('lib, 'v) Executable \<Rightarrow> string \<Rightarrow> error + string" where
  "SavePrimitiveOpNames ops e strm =
     (case primitive_names e of
        Inl err \<Rightarrow> Inl err
      | Inr names \<Rightarrow> Inr (strm @ Write_strings ops names))"

definition save_function :: "vm_decls \<Rightarrow> 'v stream_ops \<Rightarrow> VMFunction \<Rightarrow> string \<Rightarrow> string" where
  "save_function D ops func strm =
     (let func_format = \<lparr>header_name = name func,
                         header_register_file_size = register_file_size func,
                         num_instructions = of_nat (length (instructions func)),
                         header_params = params func\<rparr>
      in fold (\<lambda>instr s. s @ Instr_Save ops (SerializeInstruction D instr)) (instructions func)
           (strm @ Func_Save ops func_format))"

definition SaveCodeSection ::
  "vm_decls \<Rightarrow> 'v stream_ops \<Rightarrow> ('lib, 'v) Executable \<Rightarrow> string \<Rightarrow> string" where
  "SaveCodeSection D ops e strm =
     fold (save_function D ops) (functions e)
       (strm @ Write_uint64 ops (of_nat (length (functions e))))"

text \<open>\<^verbatim>\<open>Executable::Save\<close>: \<^verbatim>\<open>code_\<close> is cleared, the five sections are written to it, and
  the returned array views \<^verbatim>\<open>code_\<close>. The result is the array and the executable after
  the call.\<close>

definition Save ::
  "vm_decls \<Rightarrow> 'v stream_ops \<Rightarrow> ('lib, 'v) Executable \<Rightarrow>
   error + string \<times> ('lib, 'v) Executable" where
  "Save D ops e =
     (let e0 = e\<lparr>code_buffer := []\<rparr>;
          e1 = e0\<lparr>code_buffer := SaveHeader D ops (code_buffer e0)\<rparr>;
          e2 = e1\<lparr>code_buffer := SaveGlobalSection ops e1 (code_buffer e1)\<rparr>;
          e3 = e2\<lparr>code_buffer := SaveConstantSection ops e2 (code_buffer e2)\<rparr>
      in case SavePrimitiveOpNames ops e3 (code_buffer e3) of
           Inl err \<Rightarrow> Inl err
         | Inr strm \<Rightarrow>
             (let e4 = e3\<lparr>code_buffer := strm\<rparr>;
                  e5 = e4\<lparr>code_buffer := SaveCodeSection D ops e4 (code_buffer e4)\<rparr>
              in Inr (code_buffer e5, e5)))"

subsubsection \<open>Load\<close>

definition LoadHeader :: "vm_decls \<Rightarrow> 'v stream_ops \<Rightarrow> string \<Rightarrow> error + string" where
  "LoadHeader D ops strm =
     (case Read_uint64 ops strm of
        None \<Rightarrow> Inl (StreamCheck ''header'')
      | Some (header, strm1) \<Rightarrow>
          if header \<noteq> kMetaVMBytecodeMagic D then Inl (StreamCheck ''header'')
          else (case Read_string ops strm1 of
                  None \<Rightarrow> Inl (StreamCheck ''version'')
                | Some (version, strm2) \<Rightarrow>
                    if version \<noteq> TVM_VERSION D then Inl (StreamCheck ''version'')
                    else Inr strm2))"

text \<open>\<^verbatim>\<open>unordered_map::insert\<close> keeps the entry of a key that is already present.\<close>

definition map_insert :: "string \<times> Index \<Rightarrow> (string \<times> Index) list \<Rightarrow> (string \<times> Index) list" where
  "map_insert kv m = (if fst kv \<in> fst ` set m then m else m @ [kv])"

definition insert_positions :: "string list \<Rightarrow> (string \<times> Index) list \<Rightarrow> (string \<times> Index) list" where
  "insert_positions names m =
     fold (\<lambda>(i, nm). map_insert (nm, of_nat i)) (enumerate 0 names) m"

definition LoadGlobalSection ::
  "'v stream_ops \<Rightarrow> string \<Rightarrow> ('lib, 'v) Executable \<Rightarrow> error + ('lib, 'v) Executable \<times> string" where
  "LoadGlobalSection ops strm e =
     (case Read_strings ops strm of
        None \<Rightarrow> Inl (StreamCheck ''global'')
      | Some (globals, strm1) \<Rightarrow>
          Inr (e\<lparr>global_map := insert_positions globals (global_map e)\<rparr>, strm1))"

fun load_constants ::
  "'v stream_ops \<Rightarrow> nat \<Rightarrow> string \<Rightarrow> 'v list \<Rightarrow> error + 'v list \<times> string" where
  "load_constants ops 0 strm cs = Inr (cs, strm)"
| "load_constants ops (Suc n) strm cs =
     (case DeserializeValue ops strm of
        None \<Rightarrow> Inl ValueError
      | Some (v, strm1) \<Rightarrow> load_constants ops n strm1 (cs @ [v]))"

definition LoadConstantSection ::
  "'v stream_ops \<Rightarrow> string \<Rightarrow> ('lib, 'v) Executable \<Rightarrow> error + ('lib, 'v) Executable \<times> string" where
  "LoadConstantSection ops strm e =
     (case Read_size ops strm of
        None \<Rightarrow> Inl (StreamCheck ''constant'')
      | Some (sz, strm1) \<Rightarrow>
          (case load_constants ops (unat sz) strm1 (constants e) of
             Inl err \<Rightarrow> Inl err
           | Inr (cs, strm2) \<Rightarrow> Inr (e\<lparr>constants := cs\<rparr>, strm2)))"

definition LoadPrimitiveOpNames ::
  "'v stream_ops \<Rightarrow> string \<Rightarrow> ('lib, 'v) Executable \<Rightarrow> error + ('lib, 'v) Executable \<times> string" where
  "LoadPrimitiveOpNames ops strm e =
     (case Read_strings ops strm of
        None \<Rightarrow> Inl (StreamCheck ''primitive name'')
      | Some (names, strm1) \<Rightarrow>
          Inr (e\<lparr>primitive_map := insert_positions names (primitive_map e)\<rparr>, strm1))"

text \<open>The inner loop of \<^verbatim>\<open>LoadCodeSection\<close>: \<open>n\<close> instructions are loaded and decoded.\<close>

fun load_instructions ::
  "vm_decls \<Rightarrow> 'v stream_ops \<Rightarrow> nat \<Rightarrow> string \<Rightarrow> Instruction list \<Rightarrow>
   error + Instruction list \<times> string" where
  "load_instructions D ops 0 strm instrs = Inr (instrs, strm)"
| "load_instructions D ops (Suc n) strm instrs =
     (case Instr_Load ops strm of
        None \<Rightarrow> Inl (StreamCheck ''code/instruction'')
      | Some (instr, strm1) \<Rightarrow>
          (case DeserializeInstruction D instr of
             Inl err \<Rightarrow> Inl err
           | Inr i \<Rightarrow> load_instructions D ops n strm1 (instrs @ [i])))"

text \<open>The outer loop: a function is loaded, looked up in \<open>global_map\<close> (\<^verbatim>\<open>CHECK\<close>), its
  index compared with the size of the map (\<^verbatim>\<open>CHECK_LE\<close>, on unsigned values), and stored
  at that index of \<open>functions\<close>; storing past the end of the vector is undefined.\<close>

fun load_functions ::
  "vm_decls \<Rightarrow> 'v stream_ops \<Rightarrow> nat \<Rightarrow> string \<Rightarrow> ('lib, 'v) Executable \<Rightarrow>
   error + ('lib, 'v) Executable" where
  "load_functions D ops 0 strm e = Inr e"
| "load_functions D ops (Suc n) strm e =
     (case Func_Load ops strm of
        None \<Rightarrow> Inl (StreamCheck ''code/function'')
      | Some (loaded_func, strm1) \<Rightarrow>
          (case load_instructions D ops (unat (num_instructions loaded_func)) strm1 [] of
             Inl err \<Rightarrow> Inl err
           | Inr (instrs, strm2) \<Rightarrow>
               (let vm_func = \<lparr>name = header_name loaded_func, params = header_params loaded_func,
                               instructions = instrs,
                               register_file_size = header_register_file_size loaded_func\<rparr>
                in case map_of (global_map e) (header_name loaded_func) of
                     None \<Rightarrow> Inl CheckFailed
                   | Some it_second \<Rightarrow>
                       if \<not> unat it_second \<le> length (global_map e) then Inl CheckFailed
                       else if \<not> unat it_second < length (functions e) then Inl OutOfBounds
                       else load_functions D ops n strm2
                              (e\<lparr>functions := (functions e)[unat it_second := vm_func]\<rparr>))))"

text \<open>\<^verbatim>\<open>functions.resize(num_funcs)\<close> fills with default-constructed functions.\<close>

definition LoadCodeSection ::
  "vm_decls \<Rightarrow> 'v stream_ops \<Rightarrow> string \<Rightarrow> ('lib, 'v) Executable \<Rightarrow> error + ('lib, 'v) Executable" where
  "LoadCodeSection D ops strm e =
     (case Read_size ops strm of
        None \<Rightarrow> Inl (StreamCheck ''code'')
      | Some (sz, strm1) \<Rightarrow>
          load_functions D ops (unat sz) strm1
            (e\<lparr>functions := vector_resize (unat sz) (VMFunction_init D) (functions e)\<rparr>))"

text \<open>\<^verbatim>\<open>Executable::Load\<close>: a fresh executable holding the library and the code, then the
  five sections in order.\<close>

definition Executable_new :: "'lib \<Rightarrow> string \<Rightarrow> ('lib, 'v) Executable" where
  "Executable_new l code_bytes =
     \<lparr>lib = l, code_buffer = code_bytes, constants = [], global_map = [], primitive_map = [],
      functions = []\<rparr>"

definition Load ::
  "vm_decls \<Rightarrow> 'v stream_ops \<Rightarrow> string \<Rightarrow> 'lib \<Rightarrow> error + ('lib, 'v) Executable" where
  "Load D ops code_bytes l =
     (let exec = Executable_new l code_bytes in
      case LoadHeader D ops (code_buffer exec) of
        Inl err \<Rightarrow> Inl err
      | Inr strm1 \<Rightarrow>
          (case LoadGlobalSection ops strm1 exec of
             Inl err \<Rightarrow> Inl err
           | Inr (exec1, strm2) \<Rightarrow>
               (case LoadConstantSection ops strm2 exec1 of
                  Inl err \<Rightarrow> Inl err
                | Inr (exec2, strm3) \<Rightarrow>
                    (case LoadPrimitiveOpNames ops strm3 exec2 of
                       Inl err \<Rightarrow> Inl err
                     | Inr (exec3, strm4) \<Rightarrow> LoadCodeSection D ops strm4 exec3))))"

text \<open>The function headers a code section holds, read record by record up to the first
  record that cannot be read: the header of each function, with its instructions skipped.\<close>

fun skip_instructions :: "'v stream_ops \<Rightarrow> nat \<Rightarrow> string \<Rightarrow> string option" where
  "skip_instructions ops 0 strm = Some strm"
| "skip_instructions ops (Suc n) strm =
     (case Instr_Load ops strm of
        None \<Rightarrow> None
      | Some (instr, strm1) \<Rightarrow> skip_instructions ops n strm1)"

fun function_headers :: "'v stream_ops \<Rightarrow> nat \<Rightarrow> string \<Rightarrow> VMFunctionSerializer list" where
  "function_headers ops 0 strm = []"
| "function_headers ops (Suc n) strm =
     (case Func_Load ops strm of
        None \<Rightarrow> []
      | Some (h, strm1) \<Rightarrow>
          h # (case skip_instructions ops (unat (num_instructions h)) strm1 of
                 None \<Rightarrow> []
               | Some strm2 \<Rightarrow> function_headers ops n strm2))"

definition code_section_headers :: "'v stream_ops \<Rightarrow> string \<Rightarrow> VMFunctionSerializer list" where
  "code_section_headers ops strm =
     (case Read_size ops strm of
        None \<Rightarrow> []
      | Some (sz, strm1) \<Rightarrow> function_headers ops (unat sz) strm1)"

text \<open>The well-formed directories of section 3 of the specification: distinct names and
  distinct indices.\<close>

definition injective_map :: "(string \<times> Index) list \<Rightarrow> bool" where
  "injective_map m \<longleftrightarrow> distinct (map fst m) \<and> distinct (map snd m)"

definition nonnegative_indices :: "(string \<times> Index) list \<Rightarrow> bool" where
  "nonnegative_indices m \<longleftrightarrow> list_all (\<lambda>p. 0 \<le> sint (snd p)) m"

text \<open>What \<open>place_primitive\<close> and \<open>Save\<close> give when every packed index is in range: the
  vector of names, and the five sections one after the other.\<close>

definition placed_primitive :: "string \<times> Index \<Rightarrow> string list \<Rightarrow> string list" where
  "placed_primitive = (\<lambda>(nm, it_second) names.
     (names @ replicate (unat it_second + 1 - length names) [])[unat it_second := nm])"

definition placed_names :: "(string \<times> Index) list \<Rightarrow> string list" where
  "placed_names m = fold placed_primitive m []"

definition saved_bytes :: "vm_decls \<Rightarrow> 'v stream_ops \<Rightarrow> ('lib, 'v) Executable \<Rightarrow> string" where
  "saved_bytes D ops e =
     Write_uint64 ops (kMetaVMBytecodeMagic D) @ Write_string ops (TVM_VERSION D) @
     Write_strings ops (global_names e) @
     Write_uint64 ops (of_nat (length (constants e))) @
     concat (map (SerializeValue ops) (constants e)) @
     Write_strings ops (placed_names (primitive_map e)) @
     Write_uint64 ops (of_nat (length (functions e))) @
     concat (map (\<lambda>f. save_function D ops f []) (functions e))"

subsection \<open>An instance of the parameters\<close>

text \<open>Concrete declarations on which the definitions can be evaluated: the enumerators
  numbered in declaration order, a magic number, a version string, and a printer that
  writes the opcode number of an instruction.\<close>

fun Opcode_position :: "Opcode \<Rightarrow> Index" where
  "Opcode_position Opcode_Move = 0"
| "Opcode_position Opcode_Ret = 1"
| "Opcode_position Opcode_Fatal = 2"
| "Opcode_position Opcode_InvokePacked = 3"
| "Opcode_position Opcode_AllocTensor = 4"
| "Opcode_position Opcode_AllocTensorReg = 5"
| "Opcode_position Opcode_AllocStorage = 6"
| "Opcode_position Opcode_Free = 7"
| "Opcode_position Opcode_AllocTuple = 8"
| "Opcode_position Opcode_AllocClosure = 9"
| "Opcode_position Opcode_SetShape = 10"
| "Opcode_position Opcode_If = 11"
| "Opcode_position Opcode_InvokeFunc = 12"
| "Opcode_position Opcode_InvokeClosure = 13"
| "Opcode_position Opcode_LoadConst = 14"
| "Opcode_position Opcode_LoadConsti = 15"
| "Opcode_position Opcode_GetField = 16"
| "Opcode_position Opcode_Goto = 17"
| "Opcode_position Opcode_InvokeJit = 18"
| "Opcode_position Opcode_InferType = 19"
| "Opcode_position Opcode_CudaSetStream = 20"
| "Opcode_position Opcode_CudaAddEvent = 21"
| "Opcode_position Opcode_CudaWaitEvent = 22"
| "Opcode_position Opcode_CudaStreamBarrier = 23"

definition example_decls :: "bool \<Rightarrow> vm_decls" where
  "example_decls debug =
     \<lparr>Opcode_index = Opcode_position, DCHECK_enabled = debug,
      kMetaVMBytecodeMagic = 0x4D4554415F564D, TVM_VERSION = ''0.8.dev0'',
      Instruction_text = (\<lambda>i. ''op''),
      VMFunction_init = \<lparr>name = [], params = [], instructions = [], register_file_size = 0\<rparr>\<rparr>"

text \<open>
  Modelled from the spec: the primitive encodings of section 6 of the specification (an
  unsigned 64-bit value as 8 raw bytes, least significant first; a string as its length
  followed by its bytes; a list as its count followed by its elements), the function
  header and the instruction record of section 4.2, and a value codec for constants that
  are 64-bit numbers. A read fails on a short stream.
\<close>

definition bytes_of_u64 :: "64 word \<Rightarrow> string" where
  "bytes_of_u64 w = map (\<lambda>k. char_of (unat w div 256 ^ k)) [0..<8]"

definition u64_of_bytes :: "string \<Rightarrow> 64 word" where
  "u64_of_bytes bs = foldr (\<lambda>c acc. of_nat (of_char c) + 256 * acc) bs 0"

definition read_u64 :: "string \<Rightarrow> (64 word \<times> string) option" where
  "read_u64 s = (if length s < 8 then None else Some (u64_of_bytes (take 8 s), drop 8 s))"

definition write_string :: "string \<Rightarrow> string" where
  "write_string s = bytes_of_u64 (of_nat (length s)) @ s"

definition read_string :: "string \<Rightarrow> (string \<times> string) option" where
  "read_string s =
     (case read_u64 s of
        None \<Rightarrow> None
      | Some (n, r) \<Rightarrow>
          if length r < unat n then None else Some (take (unat n) r, drop (unat n) r))"

fun read_many :: "(string \<Rightarrow> ('a \<times> string) option) \<Rightarrow> nat \<Rightarrow> string \<Rightarrow> ('a list \<times> string) option" where
  "read_many rd 0 s = Some ([], s)"
| "read_many rd (Suc n) s =
     (case rd s of
        None \<Rightarrow> None
      | Some (x, r) \<Rightarrow>
          (case read_many rd n r of None \<Rightarrow> None | Some (xs, r') \<Rightarrow> Some (x # xs, r')))"

definition write_list :: "('a \<Rightarrow> string) \<Rightarrow> 'a list \<Rightarrow> string" where
  "write_list wr xs = bytes_of_u64 (of_nat (length xs)) @ concat (map wr xs)"

definition read_list :: "(string \<Rightarrow> ('a \<times> string) option) \<Rightarrow> string \<Rightarrow> ('a list \<times> string) option" where
  "read_list rd s =
     (case read_u64 s of None \<Rightarrow> None | Some (n, r) \<Rightarrow> read_many rd (unat n) r)"

definition write_function_header :: "VMFunctionSerializer \<Rightarrow> string" where
  "write_function_header h =
     write_string (header_name h) @ bytes_of_u64 (header_register_file_size h) @
     bytes_of_u64 (num_instructions h) @ write_list write_string (header_params h)"

definition read_function_header :: "string \<Rightarrow> (VMFunctionSerializer \<times> string) option" where
  "read_function_header s =
     (case read_string s of
        None \<Rightarrow> None
      | Some (nm, r1) \<Rightarrow>
          (case read_u64 r1 of
             None \<Rightarrow> None
           | Some (rfs, r2) \<Rightarrow>
               (case read_u64 r2 of
                  None \<Rightarrow> None
                | Some (cnt, r3) \<Rightarrow>
                    (case read_list read_string r3 of
                       None \<Rightarrow> None
                     | Some (ps, r4) \<Rightarrow>
                         Some (\<lparr>header_name = nm, header_register_file_size = rfs,
                                num_instructions = cnt, header_params = ps\<rparr>, r4)))))"

definition write_instruction :: "VMInstructionSerializer \<Rightarrow> string" where
  "write_instruction i =
     bytes_of_u64 (serialized_opcode i) @ write_list bytes_of_u64 (serialized_fields i)"

definition read_instruction :: "string \<Rightarrow> (VMInstructionSerializer \<times> string) option" where
  "read_instruction s =
     (case read_u64 s of
        None \<Rightarrow> None
      | Some (opc, r1) \<Rightarrow>
          (case read_list read_u64 r1 of
             None \<Rightarrow> None
           | Some (fs, r2) \<Rightarrow> Some (\<lparr>serialized_opcode = opc, serialized_fields = fs\<rparr>, r2)))"

definition spec_stream_ops :: "(64 word) stream_ops" where
  "spec_stream_ops =
     \<lparr>Write_uint64 = bytes_of_u64, Write_string = write_string,
      Write_strings = write_list write_string, SerializeValue = bytes_of_u64,
      Func_Save = write_function_header, Instr_Save = write_instruction,
      Read_uint64 = read_u64, Read_size = read_u64, Read_string = read_string,
      Read_strings = read_list read_string, DeserializeValue = read_u64,
      Func_Load = read_function_header, Instr_Load = read_instruction\<rparr>"

text \<open>Byte streams for the instance: a value below 256 as eight bytes, a short string
  with its length, the magic number of the instance, and the record of a function without
  instructions and without parameters.\<close>

definition u64_small :: "char \<Rightarrow> string" where
  "u64_small c = c # replicate 7 (CHR 0x00)"

definition string_bytes :: "char \<Rightarrow> string \<Rightarrow> string" where
  "string_bytes c s = u64_small c @ s"

definition magic_bytes :: string where
  "magic_bytes = ''MV_ATEM'' @ [CHR 0x00]"

definition empty_function :: "string \<Rightarrow> VMFunctionSerializer" where
  "empty_function nm =
     \<lparr>header_name = nm, header_register_file_size = 0, num_instructions = 0,
      header_params = []\<rparr>"

definition function_record :: "char \<Rightarrow> string \<Rightarrow> string" where
  "function_record c nm =
     string_bytes c nm @ u64_small (CHR 0x00) @ u64_small (CHR 0x00) @ u64_small (CHR 0x00)"

text \<open>A stream with a wrong magic number, and one with the right magic number and a wrong
  version.\<close>

definition stream_wrong_magic :: string where
  "stream_wrong_magic = u64_small (CHR 0x01) @ string_bytes (CHR 0x03) ''0.7''"

definition stream_wrong_version :: string where
  "stream_wrong_version = magic_bytes @ string_bytes (CHR 0x03) ''0.7''"

text \<open>A complete stream whose global section names \<open>main\<close> and whose code section holds
  the one function \<open>f\<close>.\<close>

definition code_section_f :: string where
  "code_section_f = u64_small (CHR 0x01) @ function_record (CHR 0x01) ''f''"

definition sections_after_globals :: string where
  "sections_after_globals = u64_small (CHR 0x00) @ u64_small (CHR 0x00) @ code_section_f"

definition global_section_main :: string where
  "global_section_main =
     u64_small (CHR 0x01) @ string_bytes (CHR 0x04) ''main'' @ sections_after_globals"

definition stream_unknown_function :: string where
  "stream_unknown_function =
     magic_bytes @ string_bytes (CHR 0x08) ''0.8.dev0'' @ global_section_main"

text \<open>A complete stream whose global section names \<open>a\<close>, \<open>b\<close> and \<open>c\<close> and whose code
  section announces two functions and holds the records of \<open>c\<close> and of \<open>zzz\<close>.\<close>

definition code_section_c_zzz :: string where
  "code_section_c_zzz =
     u64_small (CHR 0x02) @ function_record (CHR 0x01) ''c'' @ function_record (CHR 0x03) ''zzz''"

definition sections_after_abc :: string where
  "sections_after_abc = u64_small (CHR 0x00) @ u64_small (CHR 0x00) @ code_section_c_zzz"

definition global_section_abc :: string where
  "global_section_abc =
     u64_small (CHR 0x03) @ string_bytes (CHR 0x01) ''a'' @ string_bytes (CHR 0x01) ''b'' @
     string_bytes (CHR 0x01) ''c'' @ sections_after_abc"

definition stream_c_zzz :: string where
  "stream_c_zzz = magic_bytes @ string_bytes (CHR 0x08) ''0.8.dev0'' @ global_section_abc"

definition float32 :: DLDataType where
  "float32 = \<lparr>code = 2, bits = 32, lanes = 1\<rparr>"

definition example_main :: VMFunction where
  "example_main =
     \<lparr>name = ''main'', params = [''x''],
      instructions = [Instruction_Move 0 1, Instruction_Ret 1], register_file_size = 2\<rparr>"

definition example_entry :: VMFunction where
  "example_entry =
     \<lparr>name = ''entry'', params = [],
      instructions = [Instruction_Fatal], register_file_size = 0\<rparr>"

definition example_exec :: "(unit, unit) Executable" where
  "example_exec =
     \<lparr>lib = (), code_buffer = [], constants = [], global_map = [(''main'', 0)],
      primitive_map = [], functions = [example_main]\<rparr>"

definition example_exec2 :: "(unit, unit) Executable" where
  "example_exec2 =
     \<lparr>lib = (), code_buffer = [], constants = [], global_map = [(''main'', 0), (''entry'', 1)],
      primitive_map = [], functions = [example_main, example_entry]\<rparr>"

text \<open>Two executables with the same tables whose maps iterate in different orders, and
  whose code buffers differ.\<close>

definition example_exec_a :: "(unit, 64 word) Executable" where
  "example_exec_a =
     \<lparr>lib = (), code_buffer = [], constants = [7],
      global_map = [(''main'', 0), (''entry'', 1)],
      primitive_map = [(''add'', 1), (''mul'', 0)], functions = [example_main, example_entry]\<rparr>"

definition example_exec_b :: "(unit, 64 word) Executable" where
  "example_exec_b =
     \<lparr>lib = (), code_buffer = ''stale'', constants = [7],
      global_map = [(''entry'', 1), (''main'', 0)],
      primitive_map = [(''mul'', 0), (''add'', 1)], functions = [example_main, example_entry]\<rparr>"

section \<open>Properties of the instruction codec\<close>

lemma static_cast_Opcode_index:
  "inj (Opcode_index D) \<Longrightarrow> static_cast_Opcode D (Opcode_index D c) = Some c"
  by (cases c) (simp_all add: static_cast_Opcode_def all_Opcodes_def inj_eq)

lemma inj_Opcode_position: "inj Opcode_position"
proof (rule injI)
  fix x y
  assume "Opcode_position x = Opcode_position y"
  then show "x = y"
    by (cases x; cases y; simp)
qed

lemma inj_example_decls: "inj (Opcode_index (example_decls debug))"
  by (simp add: example_decls_def inj_Opcode_position)

lemma dtype_fields_roundtrip:
  "dtype_of_fields (ucast (code t)) (ucast (bits t)) (ucast (lanes t)) = t"
  by (simp add: dtype_of_fields_def ucast_up_ucast_id is_up)

lemma nth_tail_range:
  "map (\<lambda>i. (pre @ xs) ! i) [length pre ..< length pre + length xs] = xs"
  by (rule nth_equalityI) (auto simp: nth_append)

lemma unat_of_nat_small: "m < 2 ^ 64 \<Longrightarrow> unat (of_nat m :: 64 word) = m"
  by (simp add: unat_of_nat)

lemma sint_of_nat_small: "m < 2 ^ 63 \<Longrightarrow> sint (of_nat m :: 64 word) = int m"
  by (simp add: signed_of_nat signed_take_bit_int_eq_self)

lemma array_range_all:
  "length xs < 2 ^ 60 \<Longrightarrow> array_range xs (vector_size xs) = xs"
  by (simp add: array_range_def vector_size_def sint_of_nat_small)

lemma ExtractFields_tail:
  assumes "length xs < 2 ^ 60" and "length pre \<le> 8"
  shows "ExtractFields (pre @ xs) (of_nat (length pre)) (vector_size xs) = Inr xs"
proof -
  let ?m = "length pre + length xs"
  have m: "?m < 2 ^ 63" using assms by simp
  have sum: "of_nat (length pre) + vector_size xs = (of_nat ?m :: 64 word)"
    by (simp add: vector_size_def)
  have u: "unat (of_nat ?m :: 64 word) = ?m"
    using m by (intro unat_of_nat_small) simp
  have s: "sint (of_nat ?m :: 64 word) = int ?m"
    using m by (rule sint_of_nat_small)
  have p: "sint (of_nat (length pre) :: 64 word) = int (length pre)"
    using assms by (intro sint_of_nat_small) simp
  show ?thesis
    unfolding ExtractFields_def sum u s p
    by (simp add: nth_tail_range flip: of_nat_add)
qed

lemma unat_plus_vector_size:
  assumes "length xs < 2 ^ 60" and "k \<le> 8"
  shows "unat (of_nat k + vector_size xs) = k + length xs"
proof -
  have "of_nat k + vector_size xs = (of_nat (k + length xs) :: 64 word)"
    by (simp add: vector_size_def)
  moreover have "k + length xs < 2 ^ 64" using assms by simp
  ultimately show ?thesis by (simp only: unat_of_nat_small)
qed

lemma ExtractFields_2:
  "length xs < 2 ^ 60 \<Longrightarrow> ExtractFields (a # b # xs) 2 (vector_size xs) = Inr xs"
  using ExtractFields_tail [of xs "[a, b]"] by simp

lemma ExtractFields_3:
  "length xs < 2 ^ 60 \<Longrightarrow> ExtractFields (a # b # c # xs) 3 (vector_size xs) = Inr xs"
  using ExtractFields_tail [of xs "[a, b, c]"] by simp

lemma ExtractFields_8:
  "length xs < 2 ^ 60 \<Longrightarrow>
   ExtractFields (a # b # c # d # e # f # g # h # xs) 8 (vector_size xs) = Inr xs"
  using ExtractFields_tail [of xs "[a, b, c, d, e, f, g, h]"] by simp

lemma unat_2_plus: "length xs < 2 ^ 60 \<Longrightarrow> unat (2 + vector_size xs) = 2 + length xs"
  using unat_plus_vector_size [of xs 2] by simp

lemma unat_3_plus: "length xs < 2 ^ 60 \<Longrightarrow> unat (3 + vector_size xs) = 3 + length xs"
  using unat_plus_vector_size [of xs 3] by simp

lemma unat_8_plus: "length xs < 2 ^ 60 \<Longrightarrow> unat (8 + vector_size xs) = 8 + length xs"
  using unat_plus_vector_size [of xs 8] by simp

lemmas codec_defs =
  SerializeInstruction_def DeserializeInstruction_def checked_case_def with_tail_def
  dtype_fields_def legal_tail_def bool_of_Index_def
  Instruction_AllocTensor_make_def Instruction_AllocTuple_make_def
  Instruction_AllocClosure_make_def Instruction_InvokeFunc_make_def
  Instruction_InvokeClosure_make_def Instruction_InferType_make_def

text \<open>Every legal instruction other than the stream barrier decodes back to itself; an
  \<^verbatim>\<open>AllocTensorReg\<close> does so only where the debug checks are compiled out.\<close>

lemma roundtrip_sound:
  assumes "inj (Opcode_index D)" and "legal_operands i"
    and "i \<noteq> Instruction_CudaStreamBarrier"
    and "DCHECK_enabled D \<longrightarrow> op i \<noteq> Opcode_AllocTensorReg"
  shows "DeserializeInstruction D (SerializeInstruction D i) = Inr i"
  using assms
  by (cases i)
     (simp_all add: codec_defs static_cast_Opcode_index dtype_fields_roundtrip
        array_range_all ExtractFields_2 ExtractFields_3 ExtractFields_8
        unat_2_plus unat_3_plus unat_8_plus)

lemma decode_CudaStreamBarrier:
  "inj (Opcode_index D) \<Longrightarrow>
   DeserializeInstruction D (SerializeInstruction D Instruction_CudaStreamBarrier) =
     Inr Instruction_Fatal"
  by (simp add: codec_defs static_cast_Opcode_index)

lemma decode_AllocTensorReg_debug:
  "inj (Opcode_index D) \<Longrightarrow> DCHECK_enabled D \<Longrightarrow> length fs \<noteq> 7 \<Longrightarrow>
   DeserializeInstruction D
     \<lparr>serialized_opcode = Opcode_index D Opcode_AllocTensorReg, serialized_fields = fs\<rparr> =
     Inl DCheckFailed"
  by (simp add: codec_defs static_cast_Opcode_index)


subsection \<open>C1: instruction round-trip\<close>

text \<open>
  C1 states that decoding the serialized form of every legal instruction gives the
  instruction back. On the code this holds for a legal instruction exactly when it is not
  the \<^verbatim>\<open>CudaStreamBarrier\<close> (which decodes to \<^verbatim>\<open>Fatal\<close>) and, in a build that compiles
  the debug checks, not an \<^verbatim>\<open>AllocTensorReg\<close> (whose eight fields fail the decoder's
  check for seven).
\<close>

theorem C1_roundtrip_characterised:
  assumes "inj (Opcode_index D)" and "legal_operands i"
  shows "DeserializeInstruction D (SerializeInstruction D i) = Inr i \<longleftrightarrow>
         i \<noteq> Instruction_CudaStreamBarrier \<and>
         (DCHECK_enabled D \<longrightarrow> op i \<noteq> Opcode_AllocTensorReg)"
proof
  assume ok: "DeserializeInstruction D (SerializeInstruction D i) = Inr i"
  have "i \<noteq> Instruction_CudaStreamBarrier"
    using ok decode_CudaStreamBarrier [OF assms(1)] by auto
  moreover have "op i \<noteq> Opcode_AllocTensorReg" if dbg: "DCHECK_enabled D"
  proof
    assume "op i = Opcode_AllocTensorReg"
    then obtain a b c t d w where i: "i = Instruction_AllocTensorReg a b c t d w"
      by (cases i) simp_all
    have "DeserializeInstruction D (SerializeInstruction D i) = Inl DCheckFailed"
      unfolding i SerializeInstruction_def
      using decode_AllocTensorReg_debug [OF assms(1) dbg] by (simp add: dtype_fields_def)
    with ok show False by simp
  qed
  ultimately show "i \<noteq> Instruction_CudaStreamBarrier \<and>
         (DCHECK_enabled D \<longrightarrow> op i \<noteq> Opcode_AllocTensorReg)" by blast
next
  assume "i \<noteq> Instruction_CudaStreamBarrier \<and>
         (DCHECK_enabled D \<longrightarrow> op i \<noteq> Opcode_AllocTensorReg)"
  then show "DeserializeInstruction D (SerializeInstruction D i) = Inr i"
    using roundtrip_sound [OF assms] by blast
qed

theorem C1_roundtrip_characterised_witness:
  "DeserializeInstruction (example_decls False)
     (SerializeInstruction (example_decls False) Instruction_CudaStreamBarrier)
     \<noteq> Inr Instruction_CudaStreamBarrier
   \<and> DeserializeInstruction (example_decls True)
     (SerializeInstruction (example_decls True)
        (Instruction_AllocTensorReg 0 0 1 float32 2 True))
     \<noteq> Inr (Instruction_AllocTensorReg 0 0 1 float32 2 True)
   \<and> DeserializeInstruction (example_decls True)
     (SerializeInstruction (example_decls True) (Instruction_Move 0 1))
     = Inr (Instruction_Move 0 1)"
  using C1_roundtrip_characterised [OF inj_example_decls, of Instruction_CudaStreamBarrier False]
    C1_roundtrip_characterised [OF inj_example_decls, of "Instruction_AllocTensorReg 0 0 1 float32 2 True" True]
    C1_roundtrip_characterised [OF inj_example_decls, of "Instruction_Move 0 1" True]
  by (simp add: example_decls_def)

subsection \<open>C2: the two sides of \<^verbatim>\<open>AllocTensorReg\<close>\<close>

text \<open>
  C2: for every \<^verbatim>\<open>AllocTensorReg\<close> instruction the encoder emits exactly the eight fields
  storage, offset, shape_register, dtype.code, dtype.bits, dtype.lanes, dst, own, in this
  order, while the decoder's field-count check expects seven fields and yet reads
  \<open>own\<close> at index 7. With the debug checks compiled, any field count other than seven
  fails the check and a count of seven leaves the read at index 7 past the end; without
  them, eight or more fields decode and \<open>own\<close> is field 7.
\<close>

theorem C2_AllocTensorReg_encode_decode_asymmetry:
  assumes "inj (Opcode_index D)"
  shows "serialized_fields (SerializeInstruction D
           (Instruction_AllocTensorReg storage offset shape_register dtype dst own)) =
         [storage, offset, shape_register,
          ucast (code dtype), ucast (bits dtype), ucast (lanes dtype), dst, of_bool own]
       \<and> (let r = DeserializeInstruction D
                 \<lparr>serialized_opcode = Opcode_index D Opcode_AllocTensorReg,
                  serialized_fields = fs\<rparr>
          in (DCHECK_enabled D \<and> length fs \<noteq> 7 \<longrightarrow> r = Inl DCheckFailed)
           \<and> (DCHECK_enabled D \<and> length fs = 7 \<longrightarrow> r = Inl OutOfBounds)
           \<and> (\<not> DCHECK_enabled D \<and> 8 \<le> length fs \<longrightarrow>
                r = Inr (Instruction_AllocTensorReg (fs ! 0) (fs ! 1) (fs ! 2)
                      (dtype_of_fields (fs ! 3) (fs ! 4) (fs ! 5)) (fs ! 6) (fs ! 7 \<noteq> 0))))"
  using assms by (simp add: codec_defs static_cast_Opcode_index Let_def)

theorem C2_AllocTensorReg_encode_decode_asymmetry_witness:
  "length (serialized_fields (SerializeInstruction (example_decls True)
           (Instruction_AllocTensorReg 0 0 1 float32 2 True))) = 8
   \<and> DeserializeInstruction (example_decls True)
        (SerializeInstruction (example_decls True)
           (Instruction_AllocTensorReg 0 0 1 float32 2 True)) = Inl DCheckFailed
   \<and> DeserializeInstruction (example_decls True)
        \<lparr>serialized_opcode = 5, serialized_fields = [0, 0, 1, 2, 32, 1, 2]\<rparr> = Inl OutOfBounds
   \<and> DeserializeInstruction (example_decls False)
        \<lparr>serialized_opcode = 5, serialized_fields = [0, 0, 1, 2, 32, 1, 2, 1]\<rparr> =
        Inr (Instruction_AllocTensorReg 0 0 1 float32 2 True)"
  using
    C2_AllocTensorReg_encode_decode_asymmetry [OF inj_example_decls, of True 0 0 1 float32 2 True
      "[0, 0, 1, 2, 32, 1, 2, 1]"]
    C2_AllocTensorReg_encode_decode_asymmetry [OF inj_example_decls, of True 0 0 1 float32 2 True
      "[0, 0, 1, 2, 32, 1, 2]"]
    C2_AllocTensorReg_encode_decode_asymmetry [OF inj_example_decls, of False 0 0 1 float32 2 True
      "[0, 0, 1, 2, 32, 1, 2, 1]"]
  by (simp add: example_decls_def SerializeInstruction_def dtype_fields_def dtype_of_fields_def
      float32_def Let_def)

subsection \<open>C3: decoding a stream barrier\<close>

text \<open>
  C3: decoding the serialized form of a \<^verbatim>\<open>CudaStreamBarrier\<close>, that is its opcode with
  the empty field list, returns a \<^verbatim>\<open>Fatal\<close> instruction and not a stream barrier.
\<close>

theorem C3_CudaStreamBarrier_decodes_to_Fatal:
  assumes "inj (Opcode_index D)"
  shows "SerializeInstruction D Instruction_CudaStreamBarrier =
           \<lparr>serialized_opcode = Opcode_index D Opcode_CudaStreamBarrier, serialized_fields = []\<rparr>
       \<and> DeserializeInstruction D
           \<lparr>serialized_opcode = Opcode_index D Opcode_CudaStreamBarrier, serialized_fields = []\<rparr> =
           Inr Instruction_Fatal
       \<and> Instruction_Fatal \<noteq> Instruction_CudaStreamBarrier"
  using assms by (simp add: codec_defs static_cast_Opcode_index)

theorem C3_CudaStreamBarrier_decodes_to_Fatal_witness:
  "DeserializeInstruction (example_decls True)
     \<lparr>serialized_opcode = 23, serialized_fields = []\<rparr> = Inr Instruction_Fatal"
  using C3_CudaStreamBarrier_decodes_to_Fatal [OF inj_example_decls, of True]
  by (simp add: example_decls_def)

subsection \<open>C4: the field count of \<^verbatim>\<open>AllocStorage\<close>\<close>

text \<open>
  C4 states that the serialized form of every \<^verbatim>\<open>AllocStorage\<close> has exactly nine fields
  and that the decoder enforces this count. The encoder writes eight fields, and the
  decoder accepts a list of ten: the statement fails at the instruction below.
\<close>

theorem C4_AllocStorage_not_nine_fields:
  "length (serialized_fields (SerializeInstruction (example_decls True)
      (Instruction_AllocStorage 1024 64 float32 1 0 3))) \<noteq> 9
   \<and> DeserializeInstruction (example_decls True)
      \<lparr>serialized_opcode = 6, serialized_fields = [1024, 64, 2, 32, 1, 1, 0, 3, 7, 7]\<rparr> =
      Inr (Instruction_AllocStorage 1024 64 float32 1 0 3)"
  by (simp add: codec_defs example_decls_def static_cast_Opcode_def all_Opcodes_def
      dtype_of_fields_def float32_def)

text \<open>
  C4, as amended: the serialized form of every \<^verbatim>\<open>AllocStorage\<close> has exactly the eight
  fields allocation_size, alignment, dtype.code, dtype.bits, dtype.lanes, device_type,
  device_id, dst; decoding that form gives the instruction back; and the only count the
  decoder checks is a debug check for at least six fields.
\<close>

theorem C4_AllocStorage_eight_fields:
  assumes "inj (Opcode_index D)"
  shows "(let s = SerializeInstruction D
            (Instruction_AllocStorage allocation_size alignment dtype_hint device_type device_id dst)
          in serialized_fields s =
               [allocation_size, alignment, ucast (code dtype_hint), ucast (bits dtype_hint),
                ucast (lanes dtype_hint), device_type, device_id, dst]
           \<and> length (serialized_fields s) = 8
           \<and> DeserializeInstruction D s =
               Inr (Instruction_AllocStorage allocation_size alignment dtype_hint device_type
                     device_id dst))
       \<and> (DCHECK_enabled D \<and> length fs < 6 \<longrightarrow>
            DeserializeInstruction D
              \<lparr>serialized_opcode = Opcode_index D Opcode_AllocStorage, serialized_fields = fs\<rparr> =
              Inl DCheckFailed)"
  using assms
  by (simp add: codec_defs static_cast_Opcode_index Let_def dtype_fields_roundtrip)

theorem C4_AllocStorage_eight_fields_witness:
  "length (serialized_fields (SerializeInstruction (example_decls True)
      (Instruction_AllocStorage 1024 64 float32 1 0 3))) = 8
   \<and> DeserializeInstruction (example_decls True)
        (SerializeInstruction (example_decls True)
          (Instruction_AllocStorage 1024 64 float32 1 0 3)) =
        Inr (Instruction_AllocStorage 1024 64 float32 1 0 3)
   \<and> DeserializeInstruction (example_decls True)
        \<lparr>serialized_opcode = 6, serialized_fields = [1024, 64, 2, 32, 1]\<rparr> = Inl DCheckFailed"
  using C4_AllocStorage_eight_fields [OF inj_example_decls, of True 1024 64 float32 1 0 3
      "[1024, 64, 2, 32, 1]"]
  by (simp add: example_decls_def Let_def)

section \<open>Properties of the parameter-name query\<close>

subsection \<open>C8: the index equal to the number of parameters\<close>

text \<open>
  C8 states that \<^verbatim>\<open>GetFunctionParameterName(name, i)\<close> returns the empty string when
  \<open>i\<close> equals the number of parameters of the function. The bounds check of the source
  is \<^verbatim>\<open>index > func.params.size()\<close>, which lets this index through, and the function
  goes on to read \<^verbatim>\<open>func.params[index]\<close> one past the end of the vector instead of
  returning the empty string.
\<close>

theorem C8_index_at_size_reads_past_end:
  assumes "map_of (global_map e) func_name = Some it_second"
    and "unat it_second < length (functions e)"
    and "unat index = length (params (functions e ! unat it_second))"
  shows "GetFunctionParameterName e func_name index = Inl OutOfBounds
       \<and> GetFunctionParameterName e func_name index \<noteq> Inr []"
  using assms by (simp add: GetFunctionParameterName_def vector_at_def)

theorem C8_index_at_size_reads_past_end_witness:
  "map_of (global_map example_exec) ''main'' = Some 0
   \<and> unat (0 :: Index) < length (functions example_exec)
   \<and> unat (1 :: 32 word) = length (params (functions example_exec ! unat (0 :: Index)))
   \<and> GetFunctionParameterName example_exec ''main'' 1 = Inl OutOfBounds"
proof -
  have a: "map_of (global_map example_exec) ''main'' = Some 0"
    by (simp add: example_exec_def)
  have b: "unat (0 :: Index) < length (functions example_exec)"
    by (simp add: example_exec_def)
  have c: "unat (1 :: 32 word) = length (params (functions example_exec ! unat (0 :: Index)))"
    by (simp add: example_exec_def example_main_def)
  from C8_index_at_size_reads_past_end [OF a b c] a b c show ?thesis by blast
qed

section \<open>Properties of the disassembler\<close>

lemma put_at_end [simp]: "put s (stream_at_end b) = stream_at_end (b @ s)"
  by (simp add: put_def stream_at_end_def)

lemma fold_put_at_end:
  "fold (\<lambda>x. put (f x)) xs (stream_at_end b) = stream_at_end (b @ concat (map f xs))"
  by (induction xs arbitrary: b) simp_all

lemma init_at_end: "ostringstream_init = stream_at_end []"
  by (simp add: ostringstream_init_def stream_at_end_def)

lemma seekp_end_at_end:
  assumes "2 \<le> length w"
  shows "seekp_end (- 2) (stream_at_end (b @ w)) =
         \<lparr>str = b @ w, tellp = length b + (length w - 2), failbit = False\<rparr>"
proof -
  have "nat (int (length (b @ w)) + (- 2)) = length b + (length w - 2)"
    using assms by simp
  moreover have "0 \<le> int (length (b @ w)) + (- 2)"
    using assms by simp
  ultimately show ?thesis
    by (simp add: seekp_end_def stream_at_end_def Let_def)
qed

lemma overwrite_last_two:
  assumes "2 \<le> length w"
  shows "put [d] (put [c] \<lparr>str = b @ w, tellp = length b + (length w - 2), failbit = False\<rparr>) =
         stream_at_end (b @ take (length w - 2) w @ [c, d])"
proof -
  have 1: "put [c] \<lparr>str = b @ w, tellp = length b + (length w - 2), failbit = False\<rparr> =
           \<lparr>str = b @ take (length w - 2) w @ [c] @ drop (length w - 1) w,
            tellp = length b + (length w - 1), failbit = False\<rparr>"
    using assms by (simp add: put_def) 
  have "length (drop (length w - 1) w) = Suc 0" using assms by simp
  then obtain z where z: "drop (length w - 1) w = [z]"
    by (metis length_Suc_conv length_0_conv)
  have 2: "put [d] \<lparr>str = b @ take (length w - 2) w @ [c] @ [z],
            tellp = length b + (length w - 1), failbit = False\<rparr> =
           stream_at_end (b @ take (length w - 2) w @ [c, d])"
    using assms by (simp add: put_def stream_at_end_def)
  show ?thesis unfolding 1 z 2 ..
qed

lemma put_function_header_at_end:
  "put_function_header i func (stream_at_end b) = stream_at_end (b @ header_line i func @ endl)"
proof -
  let ?w = "function_prefix i @ name func @ ''('' @
            concat (map (\<lambda>param. param @ '', '') (params func))"
  have w: "2 \<le> length ?w" by (simp add: function_prefix_def)
  have "put_function_header i func (stream_at_end b) =
        put endl (put '')'' (seekp_end (- 2) (stream_at_end (b @ ?w))))"
    by (simp add: put_function_header_def fold_put_at_end Let_def function_prefix_def)
  also have "\<dots> = stream_at_end (b @ take (length ?w - 2) ?w @ '')'' @ endl)"
    unfolding seekp_end_at_end [OF w] endl_def overwrite_last_two [OF w] by simp
  finally show ?thesis
    by (simp add: header_line_def Let_def)
qed

lemma put_instruction_at_end:
  "put_instruction D x (stream_at_end b) = stream_at_end (b @ instruction_line D x)"
proof -
  obtain idx instr where x: "x = (idx, instr)" by (cases x)
  let ?w = "setw 2 (show_nat idx) @ '': '' @ show_Index (Opcode_index D (op instr)) @ '' '' @
            concat (map (\<lambda>it. show_Index it @ '' '') (instruction_fields instr)) @
            ''  # '' @ Instruction_text D instr"
  have ne: "?w \<noteq> []" by simp
  have os3: "put (''  # '' @ Instruction_text D instr)
          (fold (\<lambda>it. put (show_Index it @ '' '')) (instruction_fields instr)
            (put (setw 2 (show_nat idx) @ '': '' @ show_Index (Opcode_index D (op instr)) @ '' '')
               (stream_at_end b))) = stream_at_end (b @ ?w)"
    by (simp add: fold_put_at_end)
  have last: "last (str (stream_at_end (b @ ?w))) = last ?w"
    unfolding stream_at_end_def using ne by (simp del: append_assoc)
  show ?thesis
    unfolding x put_instruction_def instruction_line_def SerializeInstruction_def
    apply (simp only: prod.case Let_def VMInstructionSerializer.simps os3 last)
    apply (simp only: put_at_end append_assoc if_distrib [of "\<lambda>s. stream_at_end (b @ s)"] cong: if_cong)
    done
qed


lemma fold_put_instruction_at_end:
  "fold (put_instruction D) xs (stream_at_end b) =
   stream_at_end (b @ concat (map (instruction_line D) xs))"
  by (induction xs arbitrary: b) (simp_all add: put_instruction_at_end)

lemma put_function_at_end:
  "put_function D (i, func) (stream_at_end b) =
   stream_at_end (b @ header_line i func @ endl @
     ''# reg file size = '' @ show_Index (register_file_size func) @ endl @
     ''# instruction count = '' @ show_nat (length (instructions func)) @ endl @
     ''opcode, fields # inst(text):'' @ endl @
     concat (map (instruction_line D) (enumerate 0 (instructions func))) @ endl)"
  unfolding put_function_def prod.case Let_def put_function_header_at_end put_at_end
    fold_put_instruction_at_end
  by simp

lemma function_block_text:
  "function_block D i func =
     header_line i func @ endl @
     ''# reg file size = '' @ show_Index (register_file_size func) @ endl @
     ''# instruction count = '' @ show_nat (length (instructions func)) @ endl @
     ''opcode, fields # inst(text):'' @ endl @
     concat (map (instruction_line D) (enumerate 0 (instructions func))) @ endl"
  unfolding function_block_def init_at_end put_function_at_end
  by (simp add: stream_at_end_def)

lemma put_function_block:
  "put_function D x (stream_at_end b) =
   stream_at_end (b @ function_block D (fst x) (snd x))"
  by (cases x) (simp only: put_function_at_end function_block_text fst_conv snd_conv)

lemma fold_put_function_at_end:
  "fold (put_function D) xs (stream_at_end b) =
   stream_at_end (b @ concat (map (\<lambda>x. function_block D (fst x) (snd x)) xs))"
  by (induction xs arbitrary: b) (simp_all add: put_function_block)

lemma GetBytecode_blocks:
  "GetBytecode D e =
   concat (map (\<lambda>x. function_block D (fst x) (snd x)) (enumerate 0 (functions e)))"
  unfolding GetBytecode_def init_at_end fold_put_function_at_end
  by (simp add: stream_at_end_def)


lemma lines_Cons:
  "lines (c # s) =
     (if c = newline then [] # lines s
      else (case lines s of [] \<Rightarrow> [[c]] | l # rest \<Rightarrow> (c # l) # rest))"
  by (simp add: lines_def)

lemma lines_Nil: "lines [] = []"
  by (simp add: lines_def)

lemma single_line_Nil [simp]: "single_line []"
  by (simp add: single_line_def)

lemma single_line_Cons [simp]: "single_line (c # s) \<longleftrightarrow> c \<noteq> newline \<and> single_line s"
  by (auto simp: single_line_def)

lemma single_line_append [simp]:
  "single_line (a @ b) \<longleftrightarrow> single_line a \<and> single_line b"
  by (auto simp: single_line_def)

lemma lines_terminated:
  "single_line l \<Longrightarrow> lines (l @ endl @ rest) = l # lines rest"
  by (induction l) (simp_all add: lines_Cons endl_def)

lemma lines_terminated_list:
  "\<forall>l \<in> set ls. single_line l \<Longrightarrow>
   lines (concat (map (\<lambda>l. l @ endl) ls) @ rest) = ls @ lines rest"
  by (induction ls) (simp_all add: lines_terminated)

lemma digit_char_not_newline: "d < 10 \<Longrightarrow> digit_char d \<noteq> newline"
proof -
  assume "d < 10"
  then have "digit_char d \<in> set ''0123456789''"
    unfolding digit_char_def by (intro nth_mem) simp
  then show ?thesis by (auto simp: newline_def)
qed

lemma single_line_show_nat: "single_line (show_nat n)"
proof (induction n rule: show_nat.induct)
  case (1 n)
  show ?case
  proof (cases "n < 10")
    case True
    then show ?thesis
      by (subst show_nat.simps) (simp add: digit_char_not_newline)
  next
    case False
    with 1 have "single_line (show_nat (n div 10))" by simp
    moreover have "digit_char (n mod 10) \<noteq> newline"
      by (rule digit_char_not_newline) simp
    ultimately show ?thesis
      using False by (subst show_nat.simps) simp
  qed
qed

lemma single_line_show_Index: "single_line (show_Index x)"
  by (simp add: show_Index_def single_line_show_nat newline_def)

lemma single_line_setw: "single_line s \<Longrightarrow> single_line (setw w s)"
  by (induction "w - length s" arbitrary: w) (auto simp: setw_def single_line_def newline_def)

lemma single_line_index_prefix: "single_line (index_prefix idx)"
  by (simp add: index_prefix_def single_line_setw single_line_show_nat newline_def)

lemma single_line_function_prefix: "single_line (function_prefix i)"
  by (simp add: function_prefix_def single_line_show_nat newline_def)

lemma single_line_fields:
  "single_line (concat (map (\<lambda>it. show_Index it @ '' '') fs))"
  by (induction fs) (simp_all add: single_line_show_Index newline_def)

lemma single_line_strip_newline:
  "single_line (butlast t) \<Longrightarrow> single_line (strip_newline t)"
proof (cases "t = []")
  case True
  then show ?thesis by (simp add: strip_newline_def)
next
  case False
  assume b: "single_line (butlast t)"
  from False have t: "t = butlast t @ [last t]" by simp
  show ?thesis
  proof (cases "last t = newline")
    case True
    with False b show ?thesis by (simp add: strip_newline_def)
  next
    case F: False
    have "single_line (butlast t @ [last t])"
      using b F by simp
    with t F show ?thesis by (simp add: strip_newline_def)
  qed
qed

lemma single_line_instruction_line_body:
  "single_line (butlast (Instruction_text D instr)) \<Longrightarrow>
   single_line (instruction_line_body D (idx, instr))"
  by (simp add: instruction_line_body_def single_line_index_prefix single_line_show_Index
      single_line_fields single_line_strip_newline newline_def)

lemma instruction_line_terminated:
  "instruction_line D (idx, instr) = instruction_line_body D (idx, instr) @ endl"
proof -
  let ?t = "Instruction_text D instr"
  let ?p = "index_prefix idx @ show_Index (Opcode_index D (op instr)) @ '' '' @
            concat (map (\<lambda>it. show_Index it @ '' '') (instruction_fields instr)) @ ''  # ''"
  have w: "instruction_line D (idx, instr) =
           (if last (?p @ ?t) \<noteq> newline then (?p @ ?t) @ endl else ?p @ ?t)"
    by (simp add: instruction_line_def index_prefix_def Let_def)
  have b: "instruction_line_body D (idx, instr) = ?p @ strip_newline ?t"
    by (simp add: instruction_line_body_def)
  show ?thesis
  proof (cases "?t = []")
    case True
    have "last (?p @ []) \<noteq> newline" by (simp add: newline_def)
    then show ?thesis unfolding w b True by (simp add: strip_newline_def)
  next
    case False
    then have l: "last (?p @ ?t) = last ?t" by simp
    from False have t: "butlast ?t @ [last ?t] = ?t" by simp
    show ?thesis
    proof (cases "last ?t = newline")
      case True
      have "?p @ ?t = (?p @ butlast ?t) @ endl"
        using t True by (simp add: endl_def)
      then show ?thesis unfolding w b l using True False by (simp add: strip_newline_def)
    next
      case F: False
      then show ?thesis unfolding w b l by (simp add: strip_newline_def)
    qed
  qed
qed


lemma single_line_take: "single_line s \<Longrightarrow> single_line (take n s)"
  by (auto simp: single_line_def dest: in_set_takeD)

lemma single_line_params:
  "\<forall>p \<in> set ps. single_line p \<Longrightarrow> single_line (concat (map (\<lambda>param. param @ '', '') ps))"
  by (induction ps) (simp_all add: newline_def)

lemma single_line_header_line:
  assumes "single_line (name f)" and "\<forall>p \<in> set (params f). single_line p"
  shows "single_line (header_line i f)"
  using assms
  by (simp add: header_line_def Let_def single_line_take single_line_function_prefix
      single_line_params newline_def)

lemma instruction_lines_terminated:
  "concat (map (instruction_line D) xs) =
   concat (map (\<lambda>l. l @ endl) (map (instruction_line_body D) xs))"
proof (induction xs)
  case Nil
  show ?case by simp
next
  case (Cons x xs)
  obtain idx instr where x: "x = (idx, instr)" by (cases x)
  show ?case using Cons by (simp add: x instruction_line_terminated)
qed

lemma function_block_lines:
  assumes "printable_function D f"
  shows "lines (function_block D i f) =
     [header_line i f,
      ''# reg file size = '' @ show_Index (register_file_size f),
      ''# instruction count = '' @ show_nat (length (instructions f)),
      ''opcode, fields # inst(text):''] @
     map (instruction_line_body D) (enumerate 0 (instructions f)) @ [[]]"
proof -
  define bodies where "bodies = map (instruction_line_body D) (enumerate 0 (instructions f))"
  define r where "r = ''# reg file size = '' @ show_Index (register_file_size f)"
  define c where "c = ''# instruction count = '' @ show_nat (length (instructions f))"
  define t where "t = ''opcode, fields # inst(text):''"
  have h: "single_line (header_line i f)"
    using assms by (simp add: printable_function_def single_line_header_line)
  have r: "single_line r"
    by (simp add: r_def single_line_show_Index newline_def)
  have c: "single_line c"
    by (simp add: c_def single_line_show_nat newline_def)
  have t: "single_line t"
    by (simp add: t_def newline_def)
  have b: "\<forall>l \<in> set bodies. single_line l"
  proof
    fix l assume "l \<in> set bodies"
    then obtain idx instr where x: "(idx, instr) \<in> set (enumerate 0 (instructions f))"
      and l: "l = instruction_line_body D (idx, instr)" by (auto simp: bodies_def)
    from x have "instr \<in> set (instructions f)" by (auto simp: in_set_enumerate_eq)
    with assms have "single_line (butlast (Instruction_text D instr))"
      by (simp add: printable_function_def)
    then show "single_line l" unfolding l by (rule single_line_instruction_line_body)
  qed
  have e: "lines (endl @ []) = [[]]"
    using lines_terminated [of "[]" "[]"] by (simp add: lines_Nil)
  have "function_block D i f =
      header_line i f @ endl @ r @ endl @ c @ endl @ t @ endl @
      concat (map (\<lambda>l. l @ endl) bodies) @ endl @ []"
    unfolding function_block_text instruction_lines_terminated
    by (simp add: r_def c_def t_def bodies_def)
  then have "lines (function_block D i f) = [header_line i f, r, c, t] @ bodies @ [[]]"
    by (simp only: lines_terminated [OF h] lines_terminated [OF r] lines_terminated [OF c]
        lines_terminated [OF t] lines_terminated_list [OF b] e append_Cons append_Nil)
  then show ?thesis
    by (simp only: r_def c_def t_def bodies_def)
qed

lemma header_line_nonempty: "header_line i f \<noteq> []"
  by (simp add: header_line_def Let_def)

lemma instruction_line_body_nonempty: "instruction_line_body D x \<noteq> []"
  by (cases x) (simp add: instruction_line_body_def index_prefix_def)

lemma instruction_line_body_prefix:
  "take (length (index_prefix idx)) (instruction_line_body D (idx, instr)) = index_prefix idx"
  by (simp add: instruction_line_body_def)

lemma blocks_by_index:
  "map (\<lambda>x. g (fst x) (snd x)) (enumerate 0 xs) = map (\<lambda>i. g i (xs ! i)) [0..<length xs]"
  by (rule nth_equalityI) (simp_all add: nth_enumerate_eq)

lemma function_block_shape:
  assumes "printable_function D f"
  shows "length (lines (function_block D i f)) = length (instructions f) + 5"
    and "last (lines (function_block D i f)) = []"
    and "\<forall>l \<in> set (butlast (lines (function_block D i f))). l \<noteq> []"
    and "\<forall>j < length (instructions f).
           take (length (index_prefix j)) (lines (function_block D i f) ! (4 + j)) = index_prefix j"
proof -
  note L = function_block_lines [OF assms, of i]
  show "length (lines (function_block D i f)) = length (instructions f) + 5"
    unfolding L by simp
  show "last (lines (function_block D i f)) = []"
    unfolding L by simp
  show "\<forall>l \<in> set (butlast (lines (function_block D i f))). l \<noteq> []"
    unfolding L
    by (auto simp: butlast_append header_line_nonempty instruction_line_body_nonempty)
  show "\<forall>j < length (instructions f).
           take (length (index_prefix j)) (lines (function_block D i f) ! (4 + j)) = index_prefix j"
  proof (intro allI impI)
    fix j assume j: "j < length (instructions f)"
    have "lines (function_block D i f) ! (4 + j) =
          instruction_line_body D (j, instructions f ! j)"
      unfolding L using j by (simp add: nth_append nth_enumerate_eq)
    then show "take (length (index_prefix j)) (lines (function_block D i f) ! (4 + j)) =
       index_prefix j"
      by (simp only: instruction_line_body_prefix)
  qed
qed


lemma show_nat_digit: "n < 10 \<Longrightarrow> show_nat n = [digit_char n]"
  by (subst show_nat.simps) simp

lemma show_nat_0: "show_nat 0 = ''0''"
  by (simp add: show_nat_digit digit_char_def)

lemma show_nat_1: "show_nat 1 = ''1''"
  by (simp add: show_nat_digit digit_char_def)

lemma show_nat_2: "show_nat 2 = ''2''"
  by (simp add: show_nat_digit digit_char_def)

lemma show_Index_0: "show_Index 0 = ''0''"
  by (simp add: show_Index_def show_nat_digit digit_char_def)

lemma show_Index_1: "show_Index 1 = ''1''"
  by (simp add: show_Index_def show_nat_digit digit_char_def)

lemma show_Index_2: "show_Index 2 = ''2''"
  by (simp add: show_Index_def show_nat_digit digit_char_def)

lemma show_nat_Suc_0: "show_nat (Suc 0) = ''1''"
  by (simp add: show_nat_digit digit_char_def)

lemma show_nat_Suc_Suc_0: "show_nat (Suc (Suc 0)) = ''2''"
  by (simp add: show_nat_digit digit_char_def)

lemmas show_small = show_nat_0 show_nat_1 show_nat_2 show_nat_Suc_0 show_nat_Suc_Suc_0
  show_Index_0 show_Index_1 show_Index_2

lemma example_main_header: "header_line 0 example_main = ''VM Function[0]: main(x)''"
  by (simp add: header_line_def function_prefix_def example_main_def show_small)

lemma example_main_line0:
  "instruction_line_body (example_decls True) (0, Instruction_Move 0 1) = '' 0: 0 0 1   # op''"
  by (simp add: instruction_line_body_def example_decls_def index_prefix_def setw_def
      show_small strip_newline_def newline_def)

lemma example_main_line1:
  "instruction_line_body (example_decls True) (Suc 0, Instruction_Ret 1) = '' 1: 1 1   # op''"
  by (simp add: instruction_line_body_def example_decls_def index_prefix_def setw_def
      show_small strip_newline_def newline_def)

lemma printable_example_main: "printable_function (example_decls True) example_main"
  by (simp add: printable_function_def example_main_def example_decls_def newline_def)

lemma example_main_lines:
  "lines (function_block (example_decls True) 0 example_main) =
     [''VM Function[0]: main(x)'', ''# reg file size = 2'', ''# instruction count = 2'',
      ''opcode, fields # inst(text):'', '' 0: 0 0 1   # op'', '' 1: 1 1   # op'', []]"
  unfolding function_block_lines [OF printable_example_main] example_main_header
  by (simp add: example_main_def enumerate_eq_zip show_small example_main_line0 example_main_line1
       upt_rec [of 0])


lemma GetBytecode_by_index:
  "GetBytecode D e =
   concat (map (\<lambda>i. function_block D i (functions e ! i)) [0..<length (functions e)])"
  unfolding GetBytecode_blocks blocks_by_index ..

subsection \<open>C9: the shape of the disassembly\<close>

text \<open>
  C9, as amended: for an executable whose function names, parameter names and printed
  instructions contain no newline (a printed instruction may end in one), \<^verbatim>\<open>GetBytecode\<close>
  emits exactly one block per function, in order; the block of a function consists of
  \<open>|instructions| + 4\<close> non-blank lines (the header line, the register file size, the
  instruction count, the column legend, and one line per instruction) followed by one
  blank line; and the line of instruction \<open>j\<close> begins with \<open>j\<close>, right-aligned to
  width 2, and a colon: the indices are contiguous from 0.
\<close>

theorem C9_disassembly_shape:
  assumes "\<forall>f \<in> set (functions e). printable_function D f"
  shows "GetBytecode D e =
           concat (map (\<lambda>i. function_block D i (functions e ! i)) [0..<length (functions e)])
       \<and> (\<forall>i < length (functions e).
            length (lines (function_block D i (functions e ! i))) =
              length (instructions (functions e ! i)) + 5
          \<and> last (lines (function_block D i (functions e ! i))) = []
          \<and> (\<forall>l \<in> set (butlast (lines (function_block D i (functions e ! i)))). l \<noteq> [])
          \<and> (\<forall>j < length (instructions (functions e ! i)).
                take (length (index_prefix j)) (lines (function_block D i (functions e ! i)) ! (4 + j)) =
                index_prefix j))"
proof (intro conjI allI impI)
  show "GetBytecode D e =
           concat (map (\<lambda>i. function_block D i (functions e ! i)) [0..<length (functions e)])"
    by (rule GetBytecode_by_index)
next
  fix i assume "i < length (functions e)"
  then have p: "printable_function D (functions e ! i)" using assms by simp
  show "length (lines (function_block D i (functions e ! i))) =
              length (instructions (functions e ! i)) + 5"
    by (rule function_block_shape(1) [OF p])
  show "last (lines (function_block D i (functions e ! i))) = []"
    by (rule function_block_shape(2) [OF p])
  show "\<forall>l \<in> set (butlast (lines (function_block D i (functions e ! i)))). l \<noteq> []"
    by (rule function_block_shape(3) [OF p])
  fix j assume "j < length (instructions (functions e ! i))"
  then show "take (length (index_prefix j)) (lines (function_block D i (functions e ! i)) ! (4 + j)) =
                index_prefix j"
    using function_block_shape(4) [OF p] by blast
qed

lemma printable_example_exec:
  "\<forall>f \<in> set (functions example_exec). printable_function (example_decls True) f"
  by (simp add: example_exec_def printable_example_main)

theorem C9_disassembly_shape_witness:
  "functions example_exec = [example_main]
   \<and> printable_function (example_decls True) example_main
   \<and> GetBytecode (example_decls True) example_exec =
       function_block (example_decls True) 0 example_main
   \<and> length (lines (function_block (example_decls True) 0 example_main)) = 2 + 5
   \<and> take 4 (lines (function_block (example_decls True) 0 example_main) ! 5) = '' 1: ''"
proof -
  note C = C9_disassembly_shape [OF printable_example_exec]
  have f: "functions example_exec = [example_main]" by (simp add: example_exec_def)
  have i: "instructions example_main = [Instruction_Move 0 1, Instruction_Ret 1]"
    by (simp add: example_main_def)
  have "GetBytecode (example_decls True) example_exec =
       function_block (example_decls True) 0 example_main"
    using C [THEN conjunct1] by (simp add: f)
  moreover have "length (lines (function_block (example_decls True) 0 example_main)) = 2 + 5"
    using C [THEN conjunct2, rule_format, of 0] by (simp add: f i)
  moreover have "take 4 (lines (function_block (example_decls True) 0 example_main) ! 5) = '' 1: ''"
    using C [THEN conjunct2, rule_format, of 0, THEN conjunct2, THEN conjunct2, THEN conjunct2,
        rule_format, of 1]
    by (simp add: f i index_prefix_def setw_def show_small eval_nat_numeral)
  ultimately show ?thesis using f printable_example_main by blast
qed

text \<open>
  C9 as stated counts \<open>|instructions| + 3\<close> non-blank lines in a block. The function
  \<open>main(x)\<close> with the two instructions \<open>Move(0, 1)\<close> and \<open>Ret(1)\<close> is printed in
  six non-blank lines, not five.
\<close>

theorem C9_four_header_lines_counterexample:
  "lines (GetBytecode (example_decls True) example_exec) =
     [''VM Function[0]: main(x)'', ''# reg file size = 2'', ''# instruction count = 2'',
      ''opcode, fields # inst(text):'', '' 0: 0 0 1   # op'', '' 1: 1 1   # op'', []]
   \<and> length (filter (\<lambda>l. l \<noteq> []) (lines (GetBytecode (example_decls True) example_exec))) \<noteq>
       length (instructions example_main) + 3"
proof -
  have "GetBytecode (example_decls True) example_exec =
        function_block (example_decls True) 0 example_main"
    by (simp add: GetBytecode_by_index example_exec_def)
  then show ?thesis
    by (simp add: example_main_lines) (simp add: example_main_def)
qed

subsection \<open>C10: the header line of a function without parameters\<close>

lemma header_line_no_params:
  "params f = [] \<Longrightarrow> header_line i f = butlast (function_prefix i @ name f) @ '')''"
  by (simp add: header_line_def Let_def butlast_conv_take)

lemma function_prefix_nonempty: "function_prefix i \<noteq> []"
  by (simp add: function_prefix_def)

text \<open>
  C10: for a function whose parameter list is empty, the header line that \<^verbatim>\<open>GetBytecode\<close>
  produces is not \<^verbatim>\<open>VM Function[i]: <name>()\<close>. After printing \<^verbatim>\<open><name>(\<close> the renderer
  rewinds the put position by two characters and writes the closing parenthesis and the
  newline there, so the text of function \<open>i\<close>, which starts right after the blocks of the
  functions before it, begins with the prefix and the name less their last character,
  followed by \<open>)\<close>: the opening parenthesis and, for a non-empty name, the last
  character of the name are overwritten.
\<close>

theorem C10_header_without_params:
  assumes "i < length (functions e)" and "params (functions e ! i) = []"
  shows "let f = functions e ! i;
             pre = concat (map (\<lambda>k. function_block D k (functions e ! k)) [0..<i]);
             out = drop (length pre) (GetBytecode D e);
             got = butlast (function_prefix i @ name f) @ '')'' @ endl;
             want = function_prefix i @ name f @ ''()''
         in take (length pre) (GetBytecode D e) = pre
          \<and> take (length got) out = got
          \<and> take (length want) out \<noteq> want
          \<and> (name f \<noteq> [] \<longrightarrow> got = function_prefix i @ butlast (name f) @ '')'' @ endl)"
proof -
  define f where "f = functions e ! i"
  define blk where "blk = (\<lambda>k. function_block D k (functions e ! k))"
  define pre where "pre = concat (map blk [0..<i])"
  define out where "out = drop (length pre) (GetBytecode D e)"
  define pn where "pn = function_prefix i @ name f"
  define got where "got = butlast pn @ '')'' @ endl"
  define want where "want = pn @ ''()''"
  have split: "[0..<length (functions e)] = [0..<i] @ i # [Suc i..<length (functions e)]"
  proof -
    have "[0..<i + (length (functions e) - i)] = [0..<i] @ [i..<i + (length (functions e) - i)]"
      by (rule upt_add_eq_append) simp
    then show ?thesis using assms(1) by (simp add: upt_conv_Cons)
  qed
  have G: "GetBytecode D e = pre @ blk i @ concat (map blk [Suc i..<length (functions e)])"
    unfolding GetBytecode_by_index pre_def blk_def [symmetric] by (subst split) simp
  have 1: "take (length pre) (GetBytecode D e) = pre"
    unfolding G by simp
  have out: "out = blk i @ concat (map blk [Suc i..<length (functions e)])"
    unfolding out_def G by simp
  obtain rest where blk: "blk i = got @ rest"
    unfolding blk_def function_block_text got_def pn_def f_def
      header_line_no_params [OF assms(2)] by simp
  have 2: "take (length got) out = got"
    unfolding out blk by simp
  have pn: "pn \<noteq> []" by (simp add: pn_def function_prefix_nonempty)
  then have m: "length (butlast pn) + 1 = length pn" by simp
  have "out ! length pn = newline"
    unfolding out blk got_def endl_def
    using m by (simp add: nth_append)
  moreover have "want ! length pn = CHR ''(''"
    by (simp add: want_def nth_append)
  moreover have "take (length want) out ! length pn = out ! length pn"
    by (simp add: want_def)
  ultimately have 3: "take (length want) out \<noteq> want"
    by (auto simp: newline_def)
  have 4: "name f \<noteq> [] \<Longrightarrow> got = function_prefix i @ butlast (name f) @ '')'' @ endl"
    by (simp add: got_def pn_def butlast_append)
  from 1 2 3 4 show ?thesis
    unfolding Let_def f_def [symmetric] blk_def [symmetric] pre_def [symmetric]
      out_def [symmetric] pn_def [symmetric]
    by (simp add: got_def want_def pn_def)
qed

theorem C10_header_without_params_witness:
  "1 < length (functions example_exec2) \<and> params (functions example_exec2 ! 1) = []
   \<and> take 22 (drop (length (function_block (example_decls True) 0 example_main))
         (GetBytecode (example_decls True) example_exec2)) =
       ''VM Function[1]: entr)'' @ endl"
proof -
  have a: "1 < length (functions example_exec2)" by (simp add: example_exec2_def)
  have b: "params (functions example_exec2 ! 1) = []"
    by (simp add: example_exec2_def example_entry_def)
  have n: "name (functions example_exec2 ! 1) = ''entry''"
    by (simp add: example_exec2_def example_entry_def)
  have z: "functions example_exec2 ! 0 = example_main" by (simp add: example_exec2_def)
  have g: "butlast (function_prefix 1 @ ''entry'') @ '')'' @ endl = ''VM Function[1]: entr)'' @ endl"
    by (simp add: function_prefix_def show_small)
  from C10_header_without_params [OF a b, of "example_decls True"]
  have "take (length (butlast (function_prefix 1 @ ''entry'') @ '')'' @ endl))
          (drop (length (function_block (example_decls True) 0 example_main))
             (GetBytecode (example_decls True) example_exec2)) =
        butlast (function_prefix 1 @ ''entry'') @ '')'' @ endl"
    unfolding Let_def n by (simp add: z)
  then have "take 22 (drop (length (function_block (example_decls True) 0 example_main))
         (GetBytecode (example_decls True) example_exec2)) =
       ''VM Function[1]: entr)'' @ endl"
    unfolding g by (simp add: endl_def eval_nat_numeral)
  with a b show ?thesis by blast
qed

section \<open>Properties of the stream framing\<close>

lemma read_u64_small: "read_u64 (u64_small c @ r) = Some (of_nat (of_char c), r)"
  by (simp add: read_u64_def u64_small_def u64_of_bytes_def eval_nat_numeral)

lemma read_u64_magic:
  "read_u64 (magic_bytes @ r) = Some (0x4D4554415F564D, r)"
  by (simp add: read_u64_def magic_bytes_def u64_of_bytes_def)

lemma read_string_bytes:
  "of_char c = length s \<Longrightarrow> length s < 256 \<Longrightarrow>
   read_string (string_bytes c s @ r) = Some (s, r)"
  by (simp add: read_string_def string_bytes_def read_u64_small unat_of_nat)

subsection \<open>C5: header rejection\<close>

text \<open>
  C5: for every input stream, \<^verbatim>\<open>Load\<close> fails with the error of the "header" section
  when the leading 64-bit magic number differs from \<^verbatim>\<open>kMetaVMBytecodeMagic\<close>, and with the
  error of the "version" section when the magic number is right and the version string
  that follows differs from the producer's version.
\<close>

theorem C5_header_rejection:
  "(Read_uint64 ops code_bytes = Some (header, strm1) \<and> header \<noteq> kMetaVMBytecodeMagic D \<longrightarrow>
      (Load D ops code_bytes l :: error + ('lib, 'v) Executable) = Inl (StreamCheck ''header''))
 \<and> (Read_uint64 ops code_bytes = Some (kMetaVMBytecodeMagic D, strm1) \<and>
    Read_string ops strm1 = Some (version, strm2) \<and> version \<noteq> TVM_VERSION D \<longrightarrow>
      (Load D ops code_bytes l :: error + ('lib, 'v) Executable) = Inl (StreamCheck ''version''))"
  by (simp add: Load_def LoadHeader_def Executable_new_def Let_def)

theorem C5_header_rejection_witness:
  "(Load (example_decls True) spec_stream_ops stream_wrong_magic () :: error + (unit, 64 word) Executable)
     = Inl (StreamCheck ''header'')
 \<and> (Load (example_decls True) spec_stream_ops stream_wrong_version () :: error + (unit, 64 word) Executable)
     = Inl (StreamCheck ''version'')"
proof -
  have m: "Read_uint64 spec_stream_ops stream_wrong_magic = Some (1, string_bytes (CHR 0x03) ''0.7'')"
    by (simp add: spec_stream_ops_def stream_wrong_magic_def read_u64_small)
  have m': "(1 :: 64 word) \<noteq> kMetaVMBytecodeMagic (example_decls True)"
    by (simp add: example_decls_def)
  have v: "Read_uint64 spec_stream_ops stream_wrong_version =
           Some (kMetaVMBytecodeMagic (example_decls True), string_bytes (CHR 0x03) ''0.7'')"
    by (simp add: spec_stream_ops_def stream_wrong_version_def read_u64_magic example_decls_def)
  have s: "Read_string spec_stream_ops (string_bytes (CHR 0x03) ''0.7'') = Some (''0.7'', [])"
    using read_string_bytes [of "CHR 0x03" "''0.7''" "[]"] by (simp add: spec_stream_ops_def)
  have s': "''0.7'' \<noteq> TVM_VERSION (example_decls True)"
    by (simp add: example_decls_def)
  from C5_header_rejection [of spec_stream_ops stream_wrong_magic 1 _ "example_decls True" "()"]
    C5_header_rejection [of spec_stream_ops stream_wrong_version _
      "string_bytes (CHR 0x03) ''0.7''" "example_decls True" "()" "''0.7''" "[]"]
    m m' v s s'
  show ?thesis by blast
qed

subsection \<open>C6: a function that the global section does not name\<close>

lemma load_instructions_skip:
  "load_instructions D ops n strm acc = Inr (instrs, strm') \<Longrightarrow>
   skip_instructions ops n strm = Some strm'"
  by (induction n arbitrary: strm acc) (auto split: option.splits sum.splits)

lemma load_functions_known_names:
  "load_functions D ops n strm e = Inr e' \<Longrightarrow>
   h \<in> set (function_headers ops n strm) \<Longrightarrow>
   header_name h \<in> fst ` set (global_map e)"
proof (induction n arbitrary: strm e)
  case 0
  then show ?case by simp
next
  case (Suc n)
  from Suc.prems(1) obtain lf strm1 where fl: "Func_Load ops strm = Some (lf, strm1)"
    by (auto split: option.splits)
  from Suc.prems(1) fl obtain instrs strm2 where
    li: "load_instructions D ops (unat (num_instructions lf)) strm1 [] = Inr (instrs, strm2)"
    by (auto split: sum.splits)
  from Suc.prems(1) fl li obtain it_second where
    look: "map_of (global_map e) (header_name lf) = Some it_second"
    by (auto simp: Let_def split: option.splits)
  define e1 where "e1 = e\<lparr>functions := (functions e)[unat it_second :=
      \<lparr>name = header_name lf, params = header_params lf, instructions = instrs,
       register_file_size = header_register_file_size lf\<rparr>]\<rparr>"
  from Suc.prems(1) fl li look have rest: "load_functions D ops n strm2 e1 = Inr e'"
    by (auto simp: Let_def e1_def split: if_splits)
  have sk: "skip_instructions ops (unat (num_instructions lf)) strm1 = Some strm2"
    using li by (rule load_instructions_skip)
  from Suc.prems(2) fl sk have "h = lf \<or> h \<in> set (function_headers ops n strm2)"
    by simp
  then show ?case
  proof
    assume "h = lf"
    with look show ?thesis
      by (auto dest!: map_of_SomeD intro: rev_image_eqI)
  next
    assume "h \<in> set (function_headers ops n strm2)"
    from Suc.IH [OF rest this] show ?thesis by (simp add: e1_def)
  qed
qed

lemma LoadCodeSection_known_names:
  assumes "LoadCodeSection D ops strm e = Inr e'"
    and "h \<in> set (code_section_headers ops strm)"
  shows "header_name h \<in> fst ` set (global_map e)"
proof -
  from assms(1) obtain sz strm1 where rs: "Read_size ops strm = Some (sz, strm1)"
    by (auto simp: LoadCodeSection_def split: option.splits)
  define e1 where "e1 = e\<lparr>functions := vector_resize (unat sz) (VMFunction_init D) (functions e)\<rparr>"
  from assms(1) rs have "load_functions D ops (unat sz) strm1 e1 = Inr e'"
    by (simp add: LoadCodeSection_def e1_def)
  moreover from assms(2) rs have "h \<in> set (function_headers ops (unat sz) strm1)"
    by (simp add: code_section_headers_def)
  ultimately have "header_name h \<in> fst ` set (global_map e1)"
    by (rule load_functions_known_names)
  then show ?thesis by (simp add: e1_def)
qed

lemma fst_set_map_insert: "fst ` set (map_insert kv m) = insert (fst kv) (fst ` set m)"
  by (auto simp: map_insert_def)

lemma fst_set_fold_insert:
  "fst ` set (fold (\<lambda>(i, nm). map_insert (nm, of_nat i)) xs m) = fst ` set m \<union> snd ` set xs"
proof (induction xs arbitrary: m)
  case Nil
  show ?case by simp
next
  case (Cons x xs)
  obtain i nm where x: "x = (i, nm)" by (cases x)
  have "fst ` set (fold (\<lambda>(i, nm). map_insert (nm, of_nat i)) (x # xs) m) =
        fst ` set (map_insert (nm, of_nat i) m) \<union> snd ` set xs"
    unfolding x using Cons.IH [of "map_insert (nm, of_nat i) m"] by simp
  also have "\<dots> = fst ` set m \<union> snd ` set (x # xs)"
    unfolding fst_set_map_insert x by auto
  finally show ?case .
qed

lemma fst_set_insert_positions:
  "fst ` set (insert_positions names m) = fst ` set m \<union> set names"
proof -
  have "snd ` set (enumerate 0 names) = set names"
    by (metis map_snd_enumerate set_map)
  then show ?thesis
    by (simp add: insert_positions_def fst_set_fold_insert)
qed

lemma LoadConstantSection_global_map:
  "LoadConstantSection ops strm e = Inr (e', strm') \<Longrightarrow> global_map e' = global_map e"
  by (auto simp: LoadConstantSection_def split: option.splits sum.splits)

lemma LoadPrimitiveOpNames_global_map:
  "LoadPrimitiveOpNames ops strm e = Inr (e', strm') \<Longrightarrow> global_map e' = global_map e"
  by (auto simp: LoadPrimitiveOpNames_def split: option.splits)

text \<open>
  When the header and the global, constant and primitive sections of a stream load, and
  the code section that follows holds a function header whose name does not appear in
  the global section, \<^verbatim>\<open>Load\<close> returns no executable. The result may still be the store
  past the end of \<open>functions\<close>, which is no orderly failure.
\<close>

lemma Load_unknown_function_name:
  assumes "LoadHeader D ops code_bytes = Inr strm1"
    and "Read_strings ops strm1 = Some (globals, strm2)"
    and "LoadGlobalSection ops strm1 (Executable_new l code_bytes) = Inr (exec1, strm2)"
    and "LoadConstantSection ops strm2 exec1 = Inr (exec2, strm3)"
    and "LoadPrimitiveOpNames ops strm3 exec2 = Inr (exec3, strm4)"
    and "h \<in> set (code_section_headers ops strm4)"
    and "header_name h \<notin> set globals"
  shows "\<exists>err. Load D ops code_bytes l = Inl err"
proof -
  have L: "Load D ops code_bytes l = LoadCodeSection D ops strm4 exec3"
    using assms(1,3,4,5) by (simp add: Load_def Let_def Executable_new_def)
  have "global_map exec1 = insert_positions globals []"
    using assms(2,3) by (auto simp: LoadGlobalSection_def Executable_new_def)
  then have "fst ` set (global_map exec1) = set globals"
    by (simp add: fst_set_insert_positions)
  moreover have "global_map exec3 = global_map exec1"
    using LoadConstantSection_global_map [OF assms(4)]
      LoadPrimitiveOpNames_global_map [OF assms(5)] by simp
  ultimately have g: "fst ` set (global_map exec3) = set globals" by simp
  show ?thesis
  proof (cases "LoadCodeSection D ops strm4 exec3")
    case (Inl err)
    with L show ?thesis by simp
  next
    case (Inr e')
    from LoadCodeSection_known_names [OF Inr assms(6)] g assms(7) show ?thesis by simp
  qed
qed


lemma read_u64_0: "read_u64 (u64_small (CHR 0x00) @ r) = Some (0, r)"
  by (simp add: read_u64_small)

lemma read_u64_1: "read_u64 (u64_small (CHR 0x01) @ r) = Some (1, r)"
  by (simp add: read_u64_small)

lemma read_no_strings: "read_list read_string (u64_small (CHR 0x00) @ r) = Some ([], r)"
  by (simp add: read_list_def read_u64_0)

lemma load_functions_store_past_end:
  assumes "0 < n"
    and "Func_Load ops strm = Some (h, strm1)"
    and "load_instructions D ops (unat (num_instructions h)) strm1 [] = Inr (instrs, strm2)"
    and "map_of (global_map e) (header_name h) = Some it_second"
    and "unat it_second \<le> length (global_map e)"
    and "length (functions e) \<le> unat it_second"
  shows "load_functions D ops n strm e = Inl OutOfBounds"
proof -
  from assms(1) obtain m where "n = Suc m" by (cases n) simp_all
  with assms(2-) show ?thesis by (simp add: Let_def)
qed

lemma load_functions_unknown_name:
  assumes "0 < n"
    and "Func_Load ops strm = Some (h, strm1)"
    and "load_instructions D ops (unat (num_instructions h)) strm1 [] = Inr (instrs, strm2)"
    and "map_of (global_map e) (header_name h) = None"
  shows "load_functions D ops n strm e = Inl CheckFailed"
proof -
  from assms(1) obtain m where "n = Suc m" by (cases n) simp_all
  with assms(2-) show ?thesis by (simp add: Let_def)
qed

lemma read_u64_2: "read_u64 (u64_small (CHR 0x02) @ r) = Some (2, r)"
  by (simp add: read_u64_small)

lemma read_u64_3: "read_u64 (u64_small (CHR 0x03) @ r) = Some (3, r)"
  by (simp add: read_u64_small)

lemma read_function_record:
  assumes "of_char c = length nm" and "length nm < 256"
  shows "read_function_header (function_record c nm @ r) = Some (empty_function nm, r)"
proof -
  have "read_string (string_bytes c nm @
          u64_small (CHR 0x00) @ u64_small (CHR 0x00) @ u64_small (CHR 0x00) @ r) =
        Some (nm, u64_small (CHR 0x00) @ u64_small (CHR 0x00) @ u64_small (CHR 0x00) @ r)"
    using assms by (rule read_string_bytes)
  then show ?thesis
    by (simp add: read_function_header_def function_record_def read_u64_0 read_no_strings
        empty_function_def)
qed

lemma read_record_c:
  "read_function_header (function_record (CHR 0x01) ''c'' @ r) = Some (empty_function ''c'', r)"
  by (rule read_function_record) simp_all

lemma read_record_zzz:
  "read_function_header (function_record (CHR 0x03) ''zzz'') = Some (empty_function ''zzz'', [])"
  using read_function_record [of "CHR 0x03" "''zzz''" "[]"] by simp

lemma read_names_abc:
  "read_list read_string global_section_abc = Some ([''a'', ''b'', ''c''], sections_after_abc)"
proof -
  have a: "read_string (string_bytes (CHR 0x01) ''a'' @ r) = Some (''a'', r)" for r
    by (rule read_string_bytes) simp_all
  have b: "read_string (string_bytes (CHR 0x01) ''b'' @ r) = Some (''b'', r)" for r
    by (rule read_string_bytes) simp_all
  have c: "read_string (string_bytes (CHR 0x01) ''c'' @ r) = Some (''c'', r)" for r
    by (rule read_string_bytes) simp_all
  let ?rest = "string_bytes (CHR 0x01) ''a'' @ string_bytes (CHR 0x01) ''b'' @
     string_bytes (CHR 0x01) ''c'' @ sections_after_abc"
  have r: "read_u64 global_section_abc = Some (3, ?rest)"
    by (simp add: global_section_abc_def read_u64_3)
  have u: "unat (3 :: 64 word) = Suc (Suc (Suc 0))" by simp
  have m: "read_many read_string (Suc (Suc (Suc 0))) ?rest =
           Some ([''a'', ''b'', ''c''], sections_after_abc)"
    by (simp add: a b c)
  show ?thesis
    unfolding read_list_def r by (simp only: option.case prod.case u m)
qed

lemma positions_abc:
  "insert_positions [''a'', ''b'', ''c''] [] = [(''a'', 0), (''b'', 1), (''c'', 2)]"
  by (simp add: insert_positions_def map_insert_def enumerate_eq_zip upt_rec [of 0]
      upt_rec [of 1] upt_rec [of 2] eval_nat_numeral)

lemma headers_c_zzz:
  "code_section_headers spec_stream_ops code_section_c_zzz =
     [empty_function ''c'', empty_function ''zzz'']"
proof -
  have n: "num_instructions (empty_function nm) = 0" for nm
    by (simp add: empty_function_def)
  have "function_headers spec_stream_ops (Suc (Suc 0))
          (function_record (CHR 0x01) ''c'' @ function_record (CHR 0x03) ''zzz'') =
        [empty_function ''c'', empty_function ''zzz'']"
    by (simp add: spec_stream_ops_def read_record_c read_record_zzz n)
  moreover have "Read_size spec_stream_ops code_section_c_zzz =
      Some (2, function_record (CHR 0x01) ''c'' @ function_record (CHR 0x03) ''zzz'')"
    by (simp add: spec_stream_ops_def code_section_c_zzz_def read_u64_2)
  moreover have "unat (2 :: 64 word) = Suc (Suc 0)" by simp
  ultimately show ?thesis
    unfolding code_section_headers_def by (simp only: option.case prod.case)
qed

text \<open>On the stream whose global section names \<open>main\<close> and whose code section holds the
  one function \<open>f\<close>, the lookup of \<open>f\<close> is the first thing to fail, and Load ends in the
  failed check.\<close>

lemma Load_unknown_function_name_example:
  "(Load (example_decls debug) spec_stream_ops stream_unknown_function ()
      :: error + (unit, 64 word) Executable) = Inl CheckFailed"
proof -
  let ?D = "example_decls debug"
  let ?e0 = "Executable_new () stream_unknown_function :: (unit, 64 word) Executable"
  let ?e1 = "?e0\<lparr>global_map := [(''main'', 0)]\<rparr>"
  let ?s3 = "u64_small (CHR 0x00) @ code_section_f"
  let ?e2 = "?e1\<lparr>functions :=
                 vector_resize (unat (1 :: 64 word)) (VMFunction_init ?D) (functions ?e1)\<rparr>"
  have v: "read_string (string_bytes (CHR 0x08) ''0.8.dev0'' @ global_section_main) =
           Some (''0.8.dev0'', global_section_main)"
    by (rule read_string_bytes) simp_all
  have h: "LoadHeader ?D spec_stream_ops stream_unknown_function = Inr global_section_main"
    unfolding LoadHeader_def stream_unknown_function_def
    by (simp add: spec_stream_ops_def read_u64_magic v example_decls_def)
  have m: "read_string (string_bytes (CHR 0x04) ''main'' @ sections_after_globals) =
           Some (''main'', sections_after_globals)"
    by (rule read_string_bytes) simp_all
  have g: "Read_strings spec_stream_ops global_section_main =
           Some ([''main''], sections_after_globals)"
    by (simp add: spec_stream_ops_def read_list_def global_section_main_def read_u64_1 m)
  have p: "insert_positions [''main''] [] = [(''main'', 0)]"
    by (simp add: insert_positions_def map_insert_def enumerate_eq_zip)
  have lg: "LoadGlobalSection spec_stream_ops global_section_main ?e0 =
            Inr (?e1, sections_after_globals)"
    using g by (simp add: LoadGlobalSection_def Executable_new_def p)
  have lc: "LoadConstantSection spec_stream_ops sections_after_globals ?e1 = Inr (?e1, ?s3)"
    by (simp add: LoadConstantSection_def spec_stream_ops_def sections_after_globals_def
        read_u64_0 Executable_new_def)
  have lp: "LoadPrimitiveOpNames spec_stream_ops ?s3 ?e1 = Inr (?e1, code_section_f)"
    by (simp add: LoadPrimitiveOpNames_def spec_stream_ops_def read_no_strings
        insert_positions_def Executable_new_def)
  have fl: "Func_Load spec_stream_ops (function_record (CHR 0x01) ''f'') =
            Some (empty_function ''f'', [])"
    using read_function_record [of "CHR 0x01" "''f''" "[]"] by (simp add: spec_stream_ops_def)
  have li: "load_instructions ?D spec_stream_ops
              (unat (num_instructions (empty_function ''f''))) [] [] = Inr ([], [])"
    by (simp add: empty_function_def)
  have lk: "map_of (global_map ?e2) (header_name (empty_function ''f'')) = None"
    by (simp add: empty_function_def)
  have pos: "0 < unat (1 :: 64 word)" by simp
  have lf: "load_functions ?D spec_stream_ops (unat (1 :: 64 word))
              (function_record (CHR 0x01) ''f'') ?e2 = Inl CheckFailed"
    using pos fl li lk by (rule load_functions_unknown_name)
  have rs: "Read_size spec_stream_ops code_section_f =
            Some (1, function_record (CHR 0x01) ''f'')"
    by (simp add: spec_stream_ops_def code_section_f_def read_u64_1)
  have cs: "LoadCodeSection ?D spec_stream_ops code_section_f ?e1 = Inl CheckFailed"
    unfolding LoadCodeSection_def rs
    by (simp only: option.case prod.case lf)
  have cb: "code_buffer ?e0 = stream_unknown_function"
    by (simp add: Executable_new_def)
  show ?thesis
    using h lg lc lp cs by (simp add: Load_def Let_def cb)
qed

text \<open>C6: the claim is that Load fails in an orderly way whenever the code section holds a
  function header whose name the global section does not list. The stream \<open>stream_c_zzz\<close> has
  the right magic number and version, the global section \<open>a\<close>, \<open>b\<close>, \<open>c\<close>, no constant, no
  primitive, and a code section that announces two functions and holds the records of \<open>c\<close>
  and of \<open>zzz\<close>; the name \<open>zzz\<close> is not in the global section. LoadCodeSection resizes
  \<open>functions\<close> to two elements, finds \<open>c\<close> at index 2, passes the check of that index against
  the size of \<open>global_map\<close>, which is 3, and stores the function at index 2, past the end of
  \<open>functions\<close>, before \<open>zzz\<close> is looked up. Load ends in that store and not in a failed
  check, with checks of debug builds and without them.\<close>

theorem C6_store_past_end_before_unknown_name:
  "Read_strings spec_stream_ops global_section_abc =
     Some ([''a'', ''b'', ''c''], sections_after_abc)
   \<and> code_section_headers spec_stream_ops code_section_c_zzz =
       [empty_function ''c'', empty_function ''zzz'']
   \<and> header_name (empty_function ''zzz'') \<notin> set [''a'', ''b'', ''c'']
   \<and> (Load (example_decls True) spec_stream_ops stream_c_zzz ()
        :: error + (unit, 64 word) Executable) = Inl OutOfBounds
   \<and> (Load (example_decls False) spec_stream_ops stream_c_zzz ()
        :: error + (unit, 64 word) Executable) = Inl OutOfBounds"
proof -
  let ?e0 = "Executable_new () stream_c_zzz :: (unit, 64 word) Executable"
  let ?e1 = "?e0\<lparr>global_map := [(''a'', 0), (''b'', 1), (''c'', 2)]\<rparr>"
  let ?s3 = "u64_small (CHR 0x00) @ code_section_c_zzz"
  have g: "Read_strings spec_stream_ops global_section_abc =
     Some ([''a'', ''b'', ''c''], sections_after_abc)"
    by (simp add: spec_stream_ops_def read_names_abc)
  have v: "read_string (string_bytes (CHR 0x08) ''0.8.dev0'' @ global_section_abc) =
           Some (''0.8.dev0'', global_section_abc)"
    by (rule read_string_bytes) simp_all
  have L: "(Load (example_decls debug) spec_stream_ops stream_c_zzz ()
        :: error + (unit, 64 word) Executable) = Inl OutOfBounds" for debug
  proof -
    let ?D = "example_decls debug"
    have h: "LoadHeader ?D spec_stream_ops stream_c_zzz = Inr global_section_abc"
      unfolding LoadHeader_def stream_c_zzz_def
      by (simp add: spec_stream_ops_def read_u64_magic v example_decls_def)
    have lg: "LoadGlobalSection spec_stream_ops global_section_abc ?e0 =
              Inr (?e1, sections_after_abc)"
      using g by (simp add: LoadGlobalSection_def Executable_new_def positions_abc)
    have lc: "LoadConstantSection spec_stream_ops sections_after_abc ?e1 = Inr (?e1, ?s3)"
      by (simp add: LoadConstantSection_def spec_stream_ops_def sections_after_abc_def
          read_u64_0 Executable_new_def)
    have lp: "LoadPrimitiveOpNames spec_stream_ops ?s3 ?e1 = Inr (?e1, code_section_c_zzz)"
      by (simp add: LoadPrimitiveOpNames_def spec_stream_ops_def read_no_strings
          insert_positions_def Executable_new_def)
    let ?e2 = "?e1\<lparr>functions :=
                   vector_resize (unat (2 :: 64 word)) (VMFunction_init ?D) (functions ?e1)\<rparr>"
    let ?r = "function_record (CHR 0x01) ''c'' @ function_record (CHR 0x03) ''zzz''"
    have fl: "Func_Load spec_stream_ops ?r =
              Some (empty_function ''c'', function_record (CHR 0x03) ''zzz'')"
      by (simp add: spec_stream_ops_def read_record_c)
    have li: "load_instructions ?D spec_stream_ops
                (unat (num_instructions (empty_function ''c'')))
                (function_record (CHR 0x03) ''zzz'') [] =
              Inr ([], function_record (CHR 0x03) ''zzz'')"
      by (simp add: empty_function_def)
    have lk: "map_of (global_map ?e2) (header_name (empty_function ''c'')) = Some 2"
      by (simp add: empty_function_def)
    have le: "unat (2 :: Index) \<le> length (global_map ?e2)"
      by simp
    have fs: "length (functions ?e2) \<le> unat (2 :: Index)"
      by (simp add: vector_resize_def Executable_new_def)
    have pos: "0 < unat (2 :: 64 word)" by simp
    have lf: "load_functions ?D spec_stream_ops (unat (2 :: 64 word)) ?r ?e2 = Inl OutOfBounds"
      using pos fl li lk le fs by (rule load_functions_store_past_end)
    have rs: "Read_size spec_stream_ops code_section_c_zzz = Some (2, ?r)"
      by (simp add: spec_stream_ops_def code_section_c_zzz_def read_u64_2)
    have cs: "LoadCodeSection ?D spec_stream_ops code_section_c_zzz ?e1 = Inl OutOfBounds"
      unfolding LoadCodeSection_def rs
      by (simp only: option.case prod.case lf)
    have cb: "code_buffer ?e0 = stream_c_zzz"
      by (simp add: Executable_new_def)
    show ?thesis
      using h lg lc lp cs by (simp add: Load_def Let_def cb)
  qed
  have z: "header_name (empty_function ''zzz'') \<notin> set [''a'', ''b'', ''c'']"
    by (simp add: empty_function_def)
  from g headers_c_zzz z L [of True] L [of False] show ?thesis by blast
qed


subsection \<open>C7: Save is deterministic\<close>

lemma fold_append_bytes:
  "fold (\<lambda>x s. s @ f x) xs s0 = s0 @ concat (map f xs)"
  by (induction xs arbitrary: s0) simp_all

lemma save_function_append:
  "save_function D ops func strm = strm @ save_function D ops func []"
  by (simp add: save_function_def Let_def fold_append_bytes)

lemma fold_save_function:
  "fold (save_function D ops) fs strm = strm @ concat (map (\<lambda>f. save_function D ops f []) fs)"
proof (induction fs arbitrary: strm)
  case Nil
  show ?case by simp
next
  case (Cons f fs)
  show ?case
    by (simp add: Cons.IH [of "save_function D ops f strm"])
       (simp add: save_function_append [of D ops f strm])
qed

text \<open>A packed index other than \<open>- 1\<close> is placed without leaving the vector.\<close>

lemma place_primitive_in_range:
  assumes "it_second \<noteq> - 1"
  shows "place_primitive (nm, it_second) names = Inr (placed_primitive (nm, it_second) names)"
proof -
  have "1 + it_second \<noteq> 0"
    using assms by (simp add: add_eq_0_iff)
  then have u: "unat (it_second + 1) = unat it_second + 1"
    using unatSuc [of it_second] by (simp add: add.commute)
  show ?thesis
    by (auto simp: place_primitive_def placed_primitive_def Let_def u vector_resize_def)
qed

lemma place_primitives_in_range:
  "\<forall>p \<in> set m. snd p \<noteq> - 1 \<Longrightarrow>
   place_primitives m names = Inr (fold placed_primitive m names)"
proof (induction m arbitrary: names)
  case Nil
  show ?case by simp
next
  case (Cons p m)
  obtain nm idx where p: "p = (nm, idx)" by (cases p)
  from Cons.prems have "idx \<noteq> - 1" and rest: "\<forall>q \<in> set m. snd q \<noteq> - 1"
    by (simp_all add: p)
  then show ?case
    by (simp add: p place_primitive_in_range Cons.IH)
qed

lemma nonnegative_indices_in_range:
  "nonnegative_indices m \<Longrightarrow> \<forall>p \<in> set m. snd p \<noteq> - 1"
  by (auto simp: nonnegative_indices_def list_all_iff)

lemma primitive_names_in_range:
  "nonnegative_indices (primitive_map e) \<Longrightarrow>
   primitive_names e = Inr (placed_names (primitive_map e))"
  by (simp add: primitive_names_def placed_names_def place_primitives_in_range
      nonnegative_indices_in_range)

lemma Save_in_range:
  assumes "nonnegative_indices (primitive_map e)"
  shows "Save D ops e = Inr (saved_bytes D ops e, e\<lparr>code_buffer := saved_bytes D ops e\<rparr>)"
proof -
  have "primitive_names (e\<lparr>code_buffer := x\<rparr>) = Inr (placed_names (primitive_map e))" for x
    using primitive_names_in_range [of "e\<lparr>code_buffer := x\<rparr>"] assms by simp
  then show ?thesis
    by (simp add: Save_def Let_def SaveHeader_def SaveGlobalSection_def SaveConstantSection_def
        SavePrimitiveOpNames_def SaveCodeSection_def fold_append_bytes fold_save_function
        global_names_def saved_bytes_def)
qed

lemma saved_bytes_code_buffer:
  "saved_bytes D ops (e\<lparr>code_buffer := x\<rparr>) = saved_bytes D ops e"
  by (simp add: saved_bytes_def global_names_def)

lemma sorted_globals_unique:
  assumes "set m1 = set m2" and "distinct (map snd m1)" and "distinct (map snd m2)"
  shows "sorted_globals m1 = sorted_globals m2"
proof -
  let ?k = "\<lambda>p :: string \<times> Index. sint (snd p)"
  have k: "inj_on ?k (set m)" if "distinct (map snd m)" for m
  proof (rule inj_onI)
    fix p q assume "p \<in> set m" "q \<in> set m" "?k p = ?k q"
    then have "snd p = snd q" by (simp add: signed_word_eqI)
    with that \<open>p \<in> set m\<close> \<open>q \<in> set m\<close> show "p = q"
      by (auto simp: distinct_map dest: inj_onD)
  qed
  have d: "distinct (map ?k (sort_key ?k m))" if "distinct (map snd m)" for m
    using that k [OF that] by (simp add: distinct_map)
  have "map ?k (sort_key ?k m1) = map ?k (sort_key ?k m2)"
    by (rule sorted_distinct_set_unique) (simp_all add: d assms)
  moreover have "inj_on ?k (set (sort_key ?k m1) \<union> set (sort_key ?k m2))"
    using k [OF assms(2)] assms(1) by simp
  ultimately show ?thesis
    unfolding sorted_globals_def by (simp only: inj_on_map_eq_map)
qed

lemma length_placed_primitive:
  "length (placed_primitive (nm, idx) acc) = max (length acc) (unat idx + 1)"
  by (simp add: placed_primitive_def)

lemma nth_placed_primitive:
  "i < max (length acc) (unat idx + 1) \<Longrightarrow>
   placed_primitive (nm, idx) acc ! i =
     (if i = unat idx then nm else if i < length acc then acc ! i else [])"
  by (auto simp: placed_primitive_def nth_append nth_list_update)

lemma length_fold_placed:
  "i < length (fold placed_primitive m acc) \<longleftrightarrow>
   i < length acc \<or> (\<exists>p \<in> set m. i \<le> unat (snd p))"
proof (induction m arbitrary: acc)
  case Nil
  show ?case by simp
next
  case (Cons p m)
  obtain nm idx where p: "p = (nm, idx)" by (cases p)
  show ?case
    unfolding p using Cons.IH [of "placed_primitive (nm, idx) acc"]
    by (auto simp: length_placed_primitive)
qed

lemma nth_fold_placed_other:
  "i < length (fold placed_primitive m acc) \<Longrightarrow> \<forall>p \<in> set m. unat (snd p) \<noteq> i \<Longrightarrow>
   fold placed_primitive m acc ! i = (if i < length acc then acc ! i else [])"
proof (induction m arbitrary: acc)
  case Nil
  then show ?case by simp
next
  case (Cons p m)
  obtain nm idx where p: "p = (nm, idx)" by (cases p)
  let ?acc = "placed_primitive (nm, idx) acc"
  from Cons.prems have i: "i < length (fold placed_primitive m ?acc)"
    and o: "\<forall>q \<in> set m. unat (snd q) \<noteq> i" and ne: "unat idx \<noteq> i"
    by (simp_all add: p)
  have "fold placed_primitive m ?acc ! i = (if i < length ?acc then ?acc ! i else [])"
    by (rule Cons.IH [OF i o])
  also have "\<dots> = (if i < length acc then acc ! i else [])"
    using ne by (auto simp: length_placed_primitive nth_placed_primitive)
  finally show ?case by (simp add: p)
qed

lemma nth_fold_placed_slot:
  "distinct (map snd m) \<Longrightarrow> (nm, idx) \<in> set m \<Longrightarrow>
   fold placed_primitive m acc ! unat idx = nm"
proof (induction m arbitrary: acc)
  case Nil
  then show ?case by simp
next
  case (Cons p m)
  obtain nm' idx' where p: "p = (nm', idx')" by (cases p)
  let ?acc = "placed_primitive (nm', idx') acc"
  show ?case
  proof (cases "(nm, idx) = p")
    case True
    then have eq: "nm' = nm" "idx' = idx" by (simp_all add: p)
    have o: "\<forall>q \<in> set m. unat (snd q) \<noteq> unat idx"
    proof
      fix q assume q: "q \<in> set m"
      with Cons.prems(1) have "snd q \<noteq> idx" by (auto simp: p eq)
      then show "unat (snd q) \<noteq> unat idx" by (auto dest: unsigned_word_eqI)
    qed
    have la: "unat idx < length ?acc"
      by (simp add: length_placed_primitive eq max_def)
    have "unat idx < max (length acc) (unat idx + 1)"
      by (simp add: max_def)
    then have na: "?acc ! unat idx = nm"
      unfolding eq by (subst nth_placed_primitive) simp_all
    from la have i: "unat idx < length (fold placed_primitive m ?acc)"
      by (simp only: length_fold_placed) blast
    have "fold placed_primitive m ?acc ! unat idx =
          (if unat idx < length ?acc then ?acc ! unat idx else [])"
      by (rule nth_fold_placed_other [OF i o])
    also have "\<dots> = nm"
      using la na by simp
    finally show ?thesis by (simp add: p)
  next
    case False
    with Cons.prems have "(nm, idx) \<in> set m" and "distinct (map snd m)" by simp_all
    from Cons.IH [OF this(2) this(1), of ?acc] show ?thesis by (simp add: p)
  qed
qed

lemma placed_names_slots:
  assumes "distinct (map snd m)" and "(nm, idx) \<in> set m"
  shows "unat idx < length (placed_names m)" and "placed_names m ! unat idx = nm"
proof -
  show "unat idx < length (placed_names m)"
    unfolding placed_names_def length_fold_placed using assms(2) by force
  show "placed_names m ! unat idx = nm"
    unfolding placed_names_def using assms by (rule nth_fold_placed_slot)
qed

lemma placed_names_unique:
  assumes "set m1 = set m2" and "distinct (map snd m1)" and "distinct (map snd m2)"
  shows "placed_names m1 = placed_names m2"
  unfolding placed_names_def
proof (rule nth_equalityI)
  have "i < length (fold placed_primitive m1 []) \<longleftrightarrow> i < length (fold placed_primitive m2 [])" for i
    by (simp add: length_fold_placed assms(1))
  then show len: "length (fold placed_primitive m1 []) = length (fold placed_primitive m2 [])"
    by (metis linorder_neqE_nat order_less_irrefl)
  fix i assume i: "i < length (fold placed_primitive m1 [])"
  with len have i2: "i < length (fold placed_primitive m2 [])" by simp
  show "fold placed_primitive m1 [] ! i = fold placed_primitive m2 [] ! i"
  proof (cases "\<exists>p \<in> set m1. unat (snd p) = i")
    case True
    then obtain nm idx where p: "(nm, idx) \<in> set m1" and u: "unat idx = i" by auto
    from p assms(1) have p2: "(nm, idx) \<in> set m2" by simp
    show ?thesis
      using nth_fold_placed_slot [OF assms(2) p, of "[]"]
        nth_fold_placed_slot [OF assms(3) p2, of "[]"] u by simp
  next
    case False
    then have o1: "\<forall>p \<in> set m1. unat (snd p) \<noteq> i" by blast
    with assms(1) have o2: "\<forall>p \<in> set m2. unat (snd p) \<noteq> i" by simp
    show ?thesis
      using nth_fold_placed_other [OF i o1] nth_fold_placed_other [OF i2 o2] by simp
  qed
qed

lemma global_names_unique:
  assumes "set (global_map e1) = set (global_map e2)"
    and "distinct (map snd (global_map e1))" and "distinct (map snd (global_map e2))"
  shows "global_names e1 = global_names e2"
  unfolding global_names_def using sorted_globals_unique [OF assms] by simp

lemma saved_bytes_equivalent:
  assumes "constants e1 = constants e2" and "functions e1 = functions e2"
    and "global_names e1 = global_names e2"
    and "placed_names (primitive_map e1) = placed_names (primitive_map e2)"
  shows "saved_bytes D ops e1 = saved_bytes D ops e2"
  unfolding saved_bytes_def using assms by simp

text \<open>
  C7: \<^verbatim>\<open>Save\<close> is deterministic. For executables whose directories are injective with
  nonnegative packed indices, as section 3 of the specification requires: \<^verbatim>\<open>Save\<close>
  returns the five sections one after the other; a second \<^verbatim>\<open>Save\<close> on the executable
  left by the first returns the same bytes; two executables with equal constants, equal
  function tables and the same entries in \<open>global_map\<close> and in \<open>primitive_map\<close>, in
  whatever order the maps iterate and whatever their code buffers hold, are saved to the
  same bytes; the global section lists the names in ascending order of their indices; and
  the primitive section holds every primitive name at the position of its packed index.
\<close>

theorem C7_Save_deterministic:
  assumes "injective_map (global_map e1)" and "injective_map (primitive_map e1)"
    and "injective_map (global_map e2)" and "injective_map (primitive_map e2)"
    and "nonnegative_indices (primitive_map e1)" and "nonnegative_indices (primitive_map e2)"
    and "constants e1 = constants e2" and "functions e1 = functions e2"
    and "set (global_map e1) = set (global_map e2)"
    and "set (primitive_map e1) = set (primitive_map e2)"
  shows "Save D ops e1 = Inr (saved_bytes D ops e1, e1\<lparr>code_buffer := saved_bytes D ops e1\<rparr>)
       \<and> Save D ops (e1\<lparr>code_buffer := saved_bytes D ops e1\<rparr>) =
           Inr (saved_bytes D ops e1, e1\<lparr>code_buffer := saved_bytes D ops e1\<rparr>)
       \<and> Save D ops e2 = Inr (saved_bytes D ops e1, e2\<lparr>code_buffer := saved_bytes D ops e1\<rparr>)
       \<and> primitive_names e1 = Inr (placed_names (primitive_map e1))
       \<and> global_names e1 = map fst (sorted_globals (global_map e1))
       \<and> sorted (map (\<lambda>p. sint (snd p)) (sorted_globals (global_map e1)))
       \<and> set (sorted_globals (global_map e1)) = set (global_map e1)
       \<and> (\<forall>(nm, idx) \<in> set (primitive_map e1).
            unat idx < length (placed_names (primitive_map e1)) \<and>
            placed_names (primitive_map e1) ! unat idx = nm)"
proof (intro conjI)
  show "Save D ops e1 = Inr (saved_bytes D ops e1, e1\<lparr>code_buffer := saved_bytes D ops e1\<rparr>)"
    using assms(5) by (rule Save_in_range)
  show "Save D ops (e1\<lparr>code_buffer := saved_bytes D ops e1\<rparr>) =
           Inr (saved_bytes D ops e1, e1\<lparr>code_buffer := saved_bytes D ops e1\<rparr>)"
    using Save_in_range [of "e1\<lparr>code_buffer := saved_bytes D ops e1\<rparr>" D ops] assms(5)
    by (simp add: saved_bytes_code_buffer)
  have "saved_bytes D ops e2 = saved_bytes D ops e1"
    using assms
    by (intro saved_bytes_equivalent global_names_unique placed_names_unique)
       (simp_all add: injective_map_def)
  then show "Save D ops e2 = Inr (saved_bytes D ops e1, e2\<lparr>code_buffer := saved_bytes D ops e1\<rparr>)"
    using Save_in_range [OF assms(6), of D ops] by simp
  show "primitive_names e1 = Inr (placed_names (primitive_map e1))"
    using assms(5) by (rule primitive_names_in_range)
  show "global_names e1 = map fst (sorted_globals (global_map e1))"
    by (simp add: global_names_def)
  show "sorted (map (\<lambda>p. sint (snd p)) (sorted_globals (global_map e1)))"
    by (simp add: sorted_globals_def)
  show "set (sorted_globals (global_map e1)) = set (global_map e1)"
    by (simp add: sorted_globals_def)
  show "\<forall>(nm, idx) \<in> set (primitive_map e1).
            unat idx < length (placed_names (primitive_map e1)) \<and>
            placed_names (primitive_map e1) ! unat idx = nm"
    using assms(2) placed_names_slots [of "primitive_map e1"] by (auto simp: injective_map_def)
qed

theorem C7_Save_deterministic_witness:
  "injective_map (global_map example_exec_a) \<and> injective_map (primitive_map example_exec_a)
   \<and> injective_map (global_map example_exec_b) \<and> injective_map (primitive_map example_exec_b)
   \<and> nonnegative_indices (primitive_map example_exec_a)
   \<and> nonnegative_indices (primitive_map example_exec_b)
   \<and> set (global_map example_exec_a) = set (global_map example_exec_b)
   \<and> set (primitive_map example_exec_a) = set (primitive_map example_exec_b)
   \<and> map_sum id fst (Save (example_decls True) spec_stream_ops example_exec_a) =
       map_sum id fst (Save (example_decls True) spec_stream_ops example_exec_b)
   \<and> global_names example_exec_b = [''main'', ''entry'']
   \<and> primitive_names example_exec_a = Inr [''mul'', ''add'']"
proof -
  have a: "injective_map (global_map example_exec_a)" "injective_map (primitive_map example_exec_a)"
    by (simp_all add: injective_map_def example_exec_a_def)
  have b: "injective_map (global_map example_exec_b)" "injective_map (primitive_map example_exec_b)"
    by (simp_all add: injective_map_def example_exec_b_def)
  have n: "nonnegative_indices (primitive_map example_exec_a)"
    "nonnegative_indices (primitive_map example_exec_b)"
    by (simp_all add: nonnegative_indices_def example_exec_a_def example_exec_b_def)
  have c: "constants example_exec_a = constants example_exec_b"
    "functions example_exec_a = functions example_exec_b"
    by (simp_all add: example_exec_a_def example_exec_b_def)
  have g: "set (global_map example_exec_a) = set (global_map example_exec_b)"
    by (auto simp: example_exec_a_def example_exec_b_def)
  have p: "set (primitive_map example_exec_a) = set (primitive_map example_exec_b)"
    by (auto simp: example_exec_a_def example_exec_b_def)
  have gn: "global_names example_exec_b = [''main'', ''entry'']"
    by (simp add: global_names_def sorted_globals_def example_exec_b_def)
  have pl: "placed_names (primitive_map example_exec_a) = [''mul'', ''add'']"
    by (simp add: placed_names_def placed_primitive_def example_exec_a_def)
  note C = C7_Save_deterministic [OF a b n c g p, of "example_decls True" spec_stream_ops]
  from C have "map_sum id fst (Save (example_decls True) spec_stream_ops example_exec_a) =
       map_sum id fst (Save (example_decls True) spec_stream_ops example_exec_b)"
    by simp
  moreover from C pl have "primitive_names example_exec_a = Inr [''mul'', ''add'']"
    by simp
  ultimately show ?thesis using a b n g p gn by blast
qed

end
